theory Spec2Isabelle
  imports Complex_Main "HOL-Library.Multiset" "HOL-Library.Sublist"
begin

section \<open>Conventions of the embedding\<close>

text \<open>
  The scripts compute with pandas tables of Python floats and ints. A float column is
  modelled as \<^typ>\<open>real\<close> (exact arithmetic, no rounding), an integer column as
  \<^typ>\<open>int\<close>, a text column as \<^typ>\<open>string\<close>. A table is the list of its rows in
  row order, a row a record of the columns the script reads. A CSV file that may be
  missing is an \<^typ>\<open>'a option\<close>; an uncaught Python exception is \<open>Inl\<close> of the
  error.

  \<open>DataFrame.sort_values(col, ascending=False)\<close> is modelled by the stable sort
  \<open>sort_key\<close> on the negated column. pandas leaves the order of rows with equal keys
  to its sorting routine; the theorems below use only that the result is a
  permutation of the rows in descending key order, except where a concrete table is
  evaluated.
\<close>

datatype py_error = FileNotFoundError | IndexError | KeyError | ZeroDivisionError

text \<open>An integer column of a pandas table is a column of 64-bit signed integers, and
  arithmetic between two such columns wraps around. Integer values are modelled as
  \<^typ>\<open>int\<close>, and \<open>int64_wrap\<close> is written where the code computes with columns.\<close>

definition int64_wrap :: "int \<Rightarrow> int" where
  "int64_wrap x = (x + 9223372036854775808) mod 18446744073709551616 - 9223372036854775808"

definition is_int64 :: "int \<Rightarrow> bool" where
  "is_int64 x \<longleftrightarrow> - 9223372036854775808 \<le> x \<and> x < 9223372036854775808"

definition sort_values_desc :: "('a \<Rightarrow> real) \<Rightarrow> 'a list \<Rightarrow> 'a list" where
  "sort_values_desc col df = sort_key (\<lambda>r. - col r) df"

text \<open>\<open>pd.merge(left, right, on='Team', how='inner')\<close>: every pair of a left row and a
  right row with the same key, in the order of the left rows.\<close>

definition merge_inner ::
  "('a \<Rightarrow> string) \<Rightarrow> ('b \<Rightarrow> string) \<Rightarrow> 'a list \<Rightarrow> 'b list \<Rightarrow> ('a \<times> 'b) list" where
  "merge_inner kl kr left right =
     concat (map (\<lambda>l. map (\<lambda>r. (l, r)) (filter (\<lambda>r. kr r = kl l) right)) left)"

section \<open>scripts/final\_model\_v3.py\<close>

subsection \<open>Tables\<close>

record rankings_row =
  rk_Team :: string
  rk_Conference :: string
  rk_AdjEM :: real
  rk_AdjEM_Rank :: int
  rk_AdjOE :: real
  rk_AdjOE_Rank :: int
  rk_AdjDE :: real
  rk_AdjDE_Rank :: int

record personnel_row =
  ps_Team :: string
  ps_Experience :: real

record four_factors_row =
  ff_Team :: string
  ff_Off_TO :: real
  ff_Def_TO :: real

text \<open>A row of \<open>self.data\<close>: the merged table with the \<open>Turnover_Margin\<close> column.\<close>

record team_row =
  Team :: string
  Conference :: string
  AdjEM :: real
  AdjEM_Rank :: int
  AdjOE :: real
  AdjOE_Rank :: int
  AdjDE :: real
  AdjDE_Rank :: int
  Experience :: real
  Off_TO :: real
  Def_TO :: real
  Turnover_Margin :: real

text \<open>The five weighted factors: \<open>self.weights\<close> and the \<open>scores\<close> dictionary of
  \<open>calculate_total_score\<close> have the same five keys.\<close>

record v3_factors =
  defensive_rating :: real
  offensive_rating :: real
  recent_performance :: real
  experience :: real
  turnover_margin :: real

text \<open>A row of \<open>results_df\<close> before and after ranking. The columns copied from the team
  row carry the prefix \<open>res\<close>.\<close>

record result_row =
  res_Team :: string
  res_Conference :: string
  Final_Score :: real
  res_Experience :: real
  Off_TO_Pct :: real
  Def_TO_Pct :: real
  res_Turnover_Margin :: real
  KenPom_Rank :: int
  res_AdjEM :: real
  res_AdjOE :: real
  res_AdjDE :: real
  res_AdjOE_Rank :: int
  res_AdjDE_Rank :: int
  component_scores :: v3_factors

record ranked_row = result_row +
  Final_Rank :: int
  Rank_Change :: int

text \<open>The \<open>data\<close> directory as the script sees it: three input files and the file it
  writes.\<close>

record v3_dir =
  kenpom_rankings_latest :: "rankings_row list option"
  kenpom_height_experience_latest :: "personnel_row list option"
  kenpom_four_factors_latest :: "four_factors_row list option"
  final_predictive_rankings_v3 :: "ranked_row list option"

subsection \<open>Initialisation and loading\<close>

definition v3_weights :: v3_factors where
  "v3_weights = \<lparr>defensive_rating = 0.30, offensive_rating = 0.30,
     recent_performance = 0.20, experience = 0.15, turnover_margin = 0.05\<rparr>"

definition merged_team_row :: "(rankings_row \<times> personnel_row) \<times> four_factors_row \<Rightarrow> team_row" where
  "merged_team_row t = (case t of ((rk, ps), ff) \<Rightarrow>
     \<lparr>Team = rk_Team rk, Conference = rk_Conference rk, AdjEM = rk_AdjEM rk,
      AdjEM_Rank = rk_AdjEM_Rank rk, AdjOE = rk_AdjOE rk, AdjOE_Rank = rk_AdjOE_Rank rk,
      AdjDE = rk_AdjDE rk, AdjDE_Rank = rk_AdjDE_Rank rk,
      Experience = ps_Experience ps, Off_TO = ff_Off_TO ff, Def_TO = ff_Def_TO ff,
      Turnover_Margin = ff_Def_TO ff - ff_Off_TO ff\<rparr>)"

definition load_all_data :: "v3_dir \<Rightarrow> py_error + team_row list" where
  "load_all_data dir =
     (case kenpom_rankings_latest dir of None \<Rightarrow> Inl FileNotFoundError
      | Some rankings \<Rightarrow>
     (case kenpom_height_experience_latest dir of None \<Rightarrow> Inl FileNotFoundError
      | Some personnel \<Rightarrow>
     (case kenpom_four_factors_latest dir of None \<Rightarrow> Inl FileNotFoundError
      | Some four_factors \<Rightarrow>
        Inr (map merged_team_row
          (merge_inner (\<lambda>lp. rk_Team (fst lp)) ff_Team
             (merge_inner rk_Team ps_Team rankings personnel) four_factors)))))"

subsection \<open>Sub-score calculators\<close>

definition calculate_defensive_rating :: "team_row list \<Rightarrow> team_row \<Rightarrow> real" where
  "calculate_defensive_rating data row =
     (let def_percentile =
            real (length (filter (\<lambda>r. AdjDE r > AdjDE row) data)) / real (length data) * 100
      in if AdjDE_Rank row \<le> 10 then min 100 (def_percentile + 5)
         else if AdjDE_Rank row \<le> 25 then min 100 (def_percentile + 2)
         else def_percentile)"

definition calculate_offensive_rating :: "team_row list \<Rightarrow> team_row \<Rightarrow> real" where
  "calculate_offensive_rating data row =
     (let off_percentile =
            real (length (filter (\<lambda>r. AdjOE row > AdjOE r) data)) / real (length data) * 100
      in if AdjOE_Rank row \<le> 10 then min 100 (off_percentile + 4)
         else if AdjOE_Rank row \<le> 25 then min 100 (off_percentile + 2)
         else off_percentile)"

text \<open>\<open>self.data[self.data['Team'] == team_name].iloc[0]\<close> is the first row with that
  name; \<open>iloc[0]\<close> raises IndexError when there is none.\<close>

definition calculate_recent_performance :: "team_row list \<Rightarrow> string \<Rightarrow> py_error + real" where
  "calculate_recent_performance data team_name =
     (case find (\<lambda>r. Team r = team_name) data of
        None \<Rightarrow> Inl IndexError
      | Some row \<Rightarrow>
          (let rank = AdjEM_Rank row
           in Inr (if rank \<le> 5 then 98
              else if rank \<le> 10 then 93
              else if rank \<le> 25 then 85
              else if rank \<le> 50 then 75
              else if rank \<le> 75 then 65
              else if rank \<le> 100 then 55
              else 40)))"

definition calculate_experience :: "team_row \<Rightarrow> real" where
  "calculate_experience row =
     (let exp_value = Experience row; team_rank = AdjEM_Rank row
      in if team_rank \<le> 10 then
           (if exp_value \<ge> 2.5 then 100 else if exp_value \<ge> 2.0 then 90 else 80)
         else if team_rank \<le> 25 then
           (if exp_value \<ge> 2.5 then 95 else if exp_value \<ge> 2.0 then 80 else 70)
         else if team_rank \<le> 50 then
           (if exp_value \<ge> 2.5 then 90 else if exp_value \<ge> 2.0 then 70
            else if exp_value \<ge> 1.5 then 55 else 40)
         else
           (if exp_value \<ge> 3.0 then 85 else if exp_value \<ge> 2.5 then 70
            else if exp_value \<ge> 2.0 then 50 else 20))"

definition calculate_turnover_margin :: "team_row list \<Rightarrow> team_row \<Rightarrow> real" where
  "calculate_turnover_margin data row =
     (let margin = Turnover_Margin row;
          margin_percentile =
            real (length (filter (\<lambda>r. margin > Turnover_Margin r) data)) / real (length data) * 100;
          margin_percentile =
            (if margin > 5.0 then min 100 (margin_percentile + 10)
             else if margin > 3.0 then min 100 (margin_percentile + 5)
             else margin_percentile)
      in if margin < - 3.0 then max 0 (margin_percentile - 10) else margin_percentile)"

subsection \<open>Aggregation and ranking\<close>

definition weighted_total :: "v3_factors \<Rightarrow> v3_factors \<Rightarrow> real" where
  "weighted_total scores weights =
     defensive_rating scores * defensive_rating weights
     + offensive_rating scores * offensive_rating weights
     + recent_performance scores * recent_performance weights
     + experience scores * experience weights
     + turnover_margin scores * turnover_margin weights"

definition calculate_total_score :: "team_row list \<Rightarrow> team_row \<Rightarrow> py_error + real \<times> v3_factors" where
  "calculate_total_score data row =
     (case calculate_recent_performance data (Team row) of
        Inl e \<Rightarrow> Inl e
      | Inr recent \<Rightarrow>
          (let scores = \<lparr>defensive_rating = calculate_defensive_rating data row,
                         offensive_rating = calculate_offensive_rating data row,
                         recent_performance = recent,
                         experience = calculate_experience row,
                         turnover_margin = calculate_turnover_margin data row\<rparr>
           in Inr (weighted_total scores v3_weights, scores)))"

definition make_result :: "team_row \<Rightarrow> real \<Rightarrow> v3_factors \<Rightarrow> result_row" where
  "make_result row total_score scores =
     \<lparr>res_Team = Team row, res_Conference = Conference row, Final_Score = total_score,
      res_Experience = Experience row, Off_TO_Pct = Off_TO row, Def_TO_Pct = Def_TO row,
      res_Turnover_Margin = Turnover_Margin row, KenPom_Rank = AdjEM_Rank row,
      res_AdjEM = AdjEM row, res_AdjOE = AdjOE row, res_AdjDE = AdjDE row,
      res_AdjOE_Rank = AdjOE_Rank row, res_AdjDE_Rank = AdjDE_Rank row,
      component_scores = scores\<rparr>"

text \<open>The loop over \<open>self.data.iterrows()\<close> that fills \<open>results\<close>.\<close>

fun collect_results :: "team_row list \<Rightarrow> team_row list \<Rightarrow> py_error + result_row list" where
  "collect_results data [] = Inr []"
| "collect_results data (row # rows) =
     (case calculate_total_score data row of
        Inl e \<Rightarrow> Inl e
      | Inr (total_score, scores) \<Rightarrow>
          (case collect_results data rows of
             Inl e \<Rightarrow> Inl e
           | Inr results \<Rightarrow> Inr (make_result row total_score scores # results)))"

text \<open>\<open>df['Final_Rank'] = range(1, len(df) + 1)\<close> and
  \<open>df['Rank_Change'] = df['KenPom_Rank'] - df['Final_Rank']\<close> on the sorted table. The
  second is a subtraction of two integer columns.\<close>

definition assign_final_rank :: "result_row list \<Rightarrow> ranked_row list" where
  "assign_final_rank df =
     map (\<lambda>(i, r). result_row.extend r
            \<lparr>Final_Rank = i, Rank_Change = int64_wrap (KenPom_Rank r - i)\<rparr>)
       (zip [1..int (length df)] df)"

text \<open>\<open>pd.DataFrame(results)\<close> of an empty list has no columns, and sorting it by
  \<open>Final_Score\<close> raises KeyError.\<close>

definition generate_rankings :: "team_row list \<Rightarrow> py_error + ranked_row list" where
  "generate_rankings data =
     (case collect_results data data of
        Inl e \<Rightarrow> Inl e
      | Inr results \<Rightarrow>
          if results = [] then Inl KeyError
          else Inr (assign_final_rank (sort_values_desc Final_Score results)))"


section \<open>scripts/final\_predictive\_model.py\<close>

text \<open>A row of \<open>self.data\<close>: the rankings merged with the personnel and the tempo table.
  The tempo rank is read from the column \<open>Tempo-Adj.Rank_tempo\<close> or, when the table has
  no such column, from \<open>Tempo-Adj.Rank\<close>; a column the table does not have is \<open>None\<close>.\<close>

record fpm_row =
  fp_Team :: string
  fp_Conference :: string
  fp_AdjEM :: real
  fp_AdjEM_Rank :: int
  fp_AdjOE :: real
  fp_AdjOE_Rank :: int
  fp_AdjDE :: real
  fp_AdjDE_Rank :: int
  fp_Experience :: real
  Tempo_Adj_Rank_tempo :: "int option"
  Tempo_Adj_Rank :: "int option"

text \<open>A row of \<open>self.player_stats\<close>, the top-100 players: only its team is read.\<close>

record player_stats_row =
  pl_Team :: string

record fpm_factors =
  fp_defensive_rating :: real
  fp_offensive_rating :: real
  fp_recent_performance :: real
  fp_experience :: real
  fp_star_power :: real
  fp_pace_control :: real

record fpm_result_row =
  fr_Team :: string
  fr_Conference :: string
  fpm_Final_Score :: real
  fr_Experience :: real
  Star_Count :: int
  Tempo_Rank :: int
  fpm_KenPom_Rank :: int
  fr_AdjEM :: real
  fr_AdjOE :: real
  fr_AdjDE :: real
  fr_AdjOE_Rank :: int
  fr_AdjDE_Rank :: int
  fpm_component_scores :: fpm_factors

record fpm_ranked_row = fpm_result_row +
  fpm_Final_Rank :: int
  fpm_Rank_Change :: int

definition fpm_weights :: fpm_factors where
  "fpm_weights = \<lparr>fp_defensive_rating = 0.30, fp_offensive_rating = 0.25,
     fp_recent_performance = 0.20, fp_experience = 0.15, fp_star_power = 0.05,
     fp_pace_control = 0.05\<rparr>"

definition fpm_calculate_defensive_rating :: "fpm_row list \<Rightarrow> fpm_row \<Rightarrow> real" where
  "fpm_calculate_defensive_rating data row =
     (let def_percentile =
            real (length (filter (\<lambda>r. fp_AdjDE r > fp_AdjDE row) data)) / real (length data) * 100
      in if fp_AdjDE_Rank row \<le> 10 then min 100 (def_percentile + 5)
         else if fp_AdjDE_Rank row \<le> 25 then min 100 (def_percentile + 2)
         else def_percentile)"

definition fpm_calculate_offensive_rating :: "fpm_row list \<Rightarrow> fpm_row \<Rightarrow> real" where
  "fpm_calculate_offensive_rating data row =
     (let off_percentile =
            real (length (filter (\<lambda>r. fp_AdjOE row > fp_AdjOE r) data)) / real (length data) * 100
      in if fp_AdjOE_Rank row \<le> 10 then min 100 (off_percentile + 4)
         else if fp_AdjOE_Rank row \<le> 25 then min 100 (off_percentile + 2)
         else off_percentile)"

definition fpm_calculate_recent_performance :: "fpm_row list \<Rightarrow> string \<Rightarrow> py_error + real" where
  "fpm_calculate_recent_performance data team_name =
     (case find (\<lambda>r. fp_Team r = team_name) data of
        None \<Rightarrow> Inl IndexError
      | Some row \<Rightarrow>
          (let rank = fp_AdjEM_Rank row
           in Inr (if rank \<le> 5 then 98
              else if rank \<le> 10 then 93
              else if rank \<le> 25 then 85
              else if rank \<le> 50 then 75
              else if rank \<le> 75 then 65
              else if rank \<le> 100 then 55
              else if rank \<le> 150 then 45
              else 35)))"

definition fpm_calculate_experience :: "fpm_row list \<Rightarrow> fpm_row \<Rightarrow> real" where
  "fpm_calculate_experience data row =
     (let exp_value = fp_Experience row;
          exp_percentile =
            real (length (filter (\<lambda>r. fp_Experience row > fp_Experience r) data))
              / real (length data) * 100;
          exp_percentile =
            (if exp_value \<ge> 3.0 then min 100 (exp_percentile + 10)
             else if exp_value \<ge> 2.5 then min 100 (exp_percentile + 5)
             else exp_percentile)
      in if exp_value < 1.5 then max 0 (exp_percentile - 10)
         else if exp_value < 2.0 then max 0 (exp_percentile - 5)
         else exp_percentile)"

definition fpm_star_count :: "player_stats_row list \<Rightarrow> string \<Rightarrow> int" where
  "fpm_star_count player_stats team_name =
     int (length (filter (\<lambda>p. pl_Team p = team_name) player_stats))"

definition fpm_calculate_star_power ::
  "fpm_row list \<Rightarrow> player_stats_row list \<Rightarrow> string \<Rightarrow> py_error + real" where
  "fpm_calculate_star_power data player_stats team_name =
     (let star_count = fpm_star_count player_stats team_name
      in if star_count \<ge> 3 then Inr 100
         else if star_count = 2 then Inr 85
         else if star_count = 1 then Inr 70
         else (case find (\<lambda>r. fp_Team r = team_name) data of
                 None \<Rightarrow> Inl IndexError
               | Some team_row \<Rightarrow> Inr (if fp_AdjEM_Rank team_row \<le> 50 then 50 else 30)))"

text \<open>The part of \<open>calculate_pace_control\<close> after the tempo rank has been read.\<close>

definition fpm_tempo_score :: "fpm_row \<Rightarrow> int \<Rightarrow> real" where
  "fpm_tempo_score row tempo_rank =
     (let pace_score =
            (if tempo_rank \<le> 30 \<or> tempo_rank \<ge> 335 then 90
             else if tempo_rank \<le> 60 \<or> tempo_rank \<ge> 305 then 75
             else if tempo_rank \<le> 100 \<or> tempo_rank \<ge> 265 then 60
             else 45)
      in if fp_AdjEM_Rank row \<le> 25 then min 100 (pace_score + 10) else pace_score)"

definition fpm_calculate_pace_control :: "fpm_row \<Rightarrow> real" where
  "fpm_calculate_pace_control row =
     (case Tempo_Adj_Rank_tempo row of
        Some tempo_rank \<Rightarrow> fpm_tempo_score row tempo_rank
      | None \<Rightarrow>
          (case Tempo_Adj_Rank row of
             Some tempo_rank \<Rightarrow> fpm_tempo_score row tempo_rank
           | None \<Rightarrow> 50))"

definition fpm_weighted_total :: "fpm_factors \<Rightarrow> fpm_factors \<Rightarrow> real" where
  "fpm_weighted_total scores weights =
     fp_defensive_rating scores * fp_defensive_rating weights
     + fp_offensive_rating scores * fp_offensive_rating weights
     + fp_recent_performance scores * fp_recent_performance weights
     + fp_experience scores * fp_experience weights
     + fp_star_power scores * fp_star_power weights
     + fp_pace_control scores * fp_pace_control weights"

definition fpm_calculate_total_score ::
  "fpm_row list \<Rightarrow> player_stats_row list \<Rightarrow> fpm_row \<Rightarrow> py_error + real \<times> fpm_factors" where
  "fpm_calculate_total_score data player_stats row =
     (case fpm_calculate_recent_performance data (fp_Team row) of
        Inl e \<Rightarrow> Inl e
      | Inr recent \<Rightarrow>
          (case fpm_calculate_star_power data player_stats (fp_Team row) of
             Inl e \<Rightarrow> Inl e
           | Inr stars \<Rightarrow>
               (let scores = \<lparr>fp_defensive_rating = fpm_calculate_defensive_rating data row,
                              fp_offensive_rating = fpm_calculate_offensive_rating data row,
                              fp_recent_performance = recent,
                              fp_experience = fpm_calculate_experience data row,
                              fp_star_power = stars,
                              fp_pace_control = fpm_calculate_pace_control row\<rparr>
                in Inr (fpm_weighted_total scores fpm_weights, scores))))"

definition fpm_make_result ::
  "player_stats_row list \<Rightarrow> fpm_row \<Rightarrow> real \<Rightarrow> fpm_factors \<Rightarrow> fpm_result_row" where
  "fpm_make_result player_stats row total_score scores =
     \<lparr>fr_Team = fp_Team row, fr_Conference = fp_Conference row, fpm_Final_Score = total_score,
      fr_Experience = fp_Experience row,
      Star_Count = fpm_star_count player_stats (fp_Team row),
      Tempo_Rank = (case Tempo_Adj_Rank_tempo row of
                      Some t \<Rightarrow> t
                    | None \<Rightarrow> (case Tempo_Adj_Rank row of Some t \<Rightarrow> t | None \<Rightarrow> 0)),
      fpm_KenPom_Rank = fp_AdjEM_Rank row,
      fr_AdjEM = fp_AdjEM row, fr_AdjOE = fp_AdjOE row, fr_AdjDE = fp_AdjDE row,
      fr_AdjOE_Rank = fp_AdjOE_Rank row, fr_AdjDE_Rank = fp_AdjDE_Rank row,
      fpm_component_scores = scores\<rparr>"

fun fpm_collect_results ::
  "fpm_row list \<Rightarrow> player_stats_row list \<Rightarrow> fpm_row list \<Rightarrow> py_error + fpm_result_row list" where
  "fpm_collect_results data player_stats [] = Inr []"
| "fpm_collect_results data player_stats (row # rows) =
     (case fpm_calculate_total_score data player_stats row of
        Inl e \<Rightarrow> Inl e
      | Inr (total_score, scores) \<Rightarrow>
          (case fpm_collect_results data player_stats rows of
             Inl e \<Rightarrow> Inl e
           | Inr results \<Rightarrow>
               Inr (fpm_make_result player_stats row total_score scores # results)))"

definition fpm_assign_final_rank :: "fpm_result_row list \<Rightarrow> fpm_ranked_row list" where
  "fpm_assign_final_rank df =
     map (\<lambda>(i, r). fpm_result_row.extend r
            \<lparr>fpm_Final_Rank = i, fpm_Rank_Change = int64_wrap (fpm_KenPom_Rank r - i)\<rparr>)
       (zip [1..int (length df)] df)"

definition fpm_generate_rankings ::
  "fpm_row list \<Rightarrow> player_stats_row list \<Rightarrow> py_error + fpm_ranked_row list" where
  "fpm_generate_rankings data player_stats =
     (case fpm_collect_results data player_stats data of
        Inl e \<Rightarrow> Inl e
      | Inr results \<Rightarrow>
          if results = [] then Inl KeyError
          else Inr (fpm_assign_final_rank (sort_values_desc fpm_Final_Score results)))"

section \<open>swish\_score\_calculator\_v2.py\<close>

text \<open>
  A numeric column of the player table is a \<^typ>\<open>real\<close>. Where the script itself
  tests a value with \<open>pd.isna\<close> (the career years, and the statistics handed to
  \<open>calculate_era_adjusted_stat\<close>) the column is a \<^typ>\<open>real option\<close> and \<open>None\<close>
  is the missing value. Every column the script reads is taken to be present, so
  the defaults of \<open>player.get(col, default)\<close> do not occur.
\<close>

datatype era = pre_merger | early_modern | golden_age | post_jordan | modern

record raw_player =
  name :: string
  primary_position :: string
  career_start :: "real option"
  career_end :: "real option"
  championships :: real
  peak_ppg :: "real option"
  career_per :: real
  career_games :: real
  career_ws :: real
  mvp_shares :: real
  career_vorp :: real
  career_ppg :: "real option"
  career_rpg :: "real option"
  career_apg :: "real option"
  finals_mvp :: real
  playoff_pts_per_g :: real
  playoff_g :: real
  mvp :: real
  all_nba_first :: real
  all_nba_second :: real
  all_nba_third :: real
  all_star :: real
  dpoy :: real
  all_defensive_first :: real
  all_defensive_second :: real
  steals_leader :: real
  blocks_leader :: real
  scoring_titles :: real
  career_ts_pct :: real
  career_stl_per_g :: "real option"
  career_blk_per_g :: "real option"
  career_drb_per_g :: real
  seasons_played :: real
  career_mpg :: real

text \<open>The columns after \<open>assign_player_eras\<close>: the \<open>era\<close> column is added.\<close>

record player = raw_player +
  era :: era

text \<open>A value of a table cell, and a row of \<open>self.player_data\<close> as
  \<open>calculate_swish_score\<close> finds it: the columns the calculator reads, typed as above,
  and every other column the table has, by name. An assignment
  \<open>df['col'] = values\<close> writes the column \<open>col\<close>, whether the table had one or not.\<close>

datatype cell = IntCell int | FloatCell real | StrCell string | NaNCell

record player_row =
  stats :: player
  other_columns :: "string \<rightharpoonup> cell"

subsection \<open>Eras\<close>






text \<open>\<open>self.era_stats\<close>: the averages of each era, keyed as in the script.\<close>

fun era_stats :: "era \<Rightarrow> (string \<times> real) list" where
  "era_stats pre_merger =
     [(''avg_ppg'', 19.8), (''avg_rpg'', 5.9), (''avg_apg'', 3.2), (''avg_fg_pct'', 0.426),
      (''avg_pace'', 110), (''avg_stl'', 1.2), (''avg_blk'', 0.8)]"
| "era_stats early_modern =
     [(''avg_ppg'', 18.4), (''avg_rpg'', 5.2), (''avg_apg'', 3.8), (''avg_fg_pct'', 0.461),
      (''avg_pace'', 103), (''avg_stl'', 1.5), (''avg_blk'', 0.7)]"
| "era_stats golden_age =
     [(''avg_ppg'', 16.8), (''avg_rpg'', 4.8), (''avg_apg'', 3.5), (''avg_fg_pct'', 0.454),
      (''avg_pace'', 95), (''avg_stl'', 1.4), (''avg_blk'', 0.6)]"
| "era_stats post_jordan =
     [(''avg_ppg'', 15.2), (''avg_rpg'', 4.4), (''avg_apg'', 3.3), (''avg_fg_pct'', 0.439),
      (''avg_pace'', 91), (''avg_stl'', 1.3), (''avg_blk'', 0.5)]"
| "era_stats modern =
     [(''avg_ppg'', 16.5), (''avg_rpg'', 4.5), (''avg_apg'', 3.6), (''avg_fg_pct'', 0.449),
      (''avg_pace'', 97), (''avg_stl'', 1.2), (''avg_blk'', 0.5)]"

subsection \<open>Component scores\<close>

definition calculate_era_adjusted_stat :: "real option \<Rightarrow> string \<Rightarrow> era \<Rightarrow> real" where
  "calculate_era_adjusted_stat player_stat stat_name player_era =
     (case player_stat of
        None \<Rightarrow> 0
      | Some stat \<Rightarrow>
          if stat = 0 then 0
          else
            (let era_avg = (case map_of (era_stats player_era) (''avg_'' @ stat_name) of
                              Some avg \<Rightarrow> avg | None \<Rightarrow> 1);
                 era_multiplier = (if era_avg > 0 then stat / era_avg else 1);
                 score =
                   (if stat_name \<in> set [''ppg'', ''rpg'', ''apg'']
                      then min 100 ((era_multiplier - 1) * 150)
                    else if stat_name \<in> set [''stl'', ''blk'']
                      then min 100 ((era_multiplier - 1) * 100)
                    else min 100 (max 0 ((stat - 0.400) * 500)))
             in max 0 score))"

text \<open>Each \<open>calculate_...\<close> method loops over the rows and appends one score per row;
  the \<open>..._of\<close> definition is the loop body.\<close>

definition peak_dominance_of :: "player \<Rightarrow> real" where
  "peak_dominance_of p =
     (let peak_ppg_adjusted = calculate_era_adjusted_stat (peak_ppg p) ''ppg'' (era p);
          peak_per = career_per p;
          per_score = min 100 (((peak_per - 15) / 16) * 100);
          games = career_games p;
          ws_per_48 = (if games > 0 then (career_ws p / games) * 48 else 0);
          ws48_score = min 100 ((ws_per_48 / 0.250) * 100);
          mvp_share_score = min 100 ((mvp_shares p / 5.0) * 100)
      in 0.30 * peak_ppg_adjusted + 0.30 * per_score + 0.25 * ws48_score
         + 0.15 * mvp_share_score)"

definition calculate_peak_dominance :: "player list \<Rightarrow> real list" where
  "calculate_peak_dominance player_data = map peak_dominance_of player_data"

definition career_value_of :: "player \<Rightarrow> real" where
  "career_value_of p =
     (let ws_score = min 100 ((career_ws p / 250.0) * 100);
          vorp_score = min 100 ((career_vorp p / 100.0) * 100);
          ppg_adjusted = calculate_era_adjusted_stat (career_ppg p) ''ppg'' (era p);
          rpg_adjusted = calculate_era_adjusted_stat (career_rpg p) ''rpg'' (era p);
          apg_adjusted = calculate_era_adjusted_stat (career_apg p) ''apg'' (era p);
          position = primary_position p;
          stats_score =
            (if position \<in> set [''C'', ''F-C'', ''C-F'']
               then ppg_adjusted * 0.35 + rpg_adjusted * 0.45 + apg_adjusted * 0.20
             else if position \<in> set [''G'', ''G-F'', ''F-G'']
               then ppg_adjusted * 0.40 + rpg_adjusted * 0.20 + apg_adjusted * 0.40
             else ppg_adjusted * 0.40 + rpg_adjusted * 0.35 + apg_adjusted * 0.25)
      in 0.40 * ws_score + 0.35 * vorp_score + 0.25 * stats_score)"

definition calculate_career_value :: "player list \<Rightarrow> real list" where
  "calculate_career_value player_data = map career_value_of player_data"

fun ring_era_multiplier :: "era \<Rightarrow> real" where
  "ring_era_multiplier pre_merger = 0.7"
| "ring_era_multiplier early_modern = 0.8"
| "ring_era_multiplier golden_age = 0.9"
| "ring_era_multiplier post_jordan = 1.0"
| "ring_era_multiplier modern = 1.0"

definition championship_impact_of :: "player \<Rightarrow> real" where
  "championship_impact_of p =
     (let adjusted_rings = championships p * ring_era_multiplier (era p);
          rings_score = min 100 ((adjusted_rings / 5.0) * 100);
          fmvp_score = min 100 ((finals_mvp p / 3.0) * 100);
          playoff_ppg = playoff_pts_per_g p;
          playoff_elevation =
            (case career_ppg p of
               Some ppg \<Rightarrow> if ppg > 0 then playoff_ppg / ppg else 1.0
             | None \<Rightarrow> 1.0);
          elevation_score =
            (if playoff_elevation > 1.10 then min 100 ((playoff_elevation - 1) * 500) else 0);
          playoff_exp_score = min 100 ((playoff_g p / 220.0) * 100)
      in 0.35 * rings_score + 0.30 * fmvp_score + 0.20 * elevation_score
         + 0.15 * playoff_exp_score)"

definition calculate_championship_impact :: "player list \<Rightarrow> real list" where
  "calculate_championship_impact player_data = map championship_impact_of player_data"

fun era_star_target :: "era \<Rightarrow> real" where
  "era_star_target pre_merger = 10"
| "era_star_target early_modern = 12"
| "era_star_target golden_age = 13"
| "era_star_target post_jordan = 14"
| "era_star_target modern = 15"

definition individual_honors_of :: "player \<Rightarrow> real" where
  "individual_honors_of p =
     (let mvp_score = min 100 ((mvp p / 4.0) * 100);
          all_nba_points = all_nba_first p * 5 + all_nba_second p * 3 + all_nba_third p * 1;
          all_nba_score = min 100 ((all_nba_points / 50.0) * 100);
          all_star_score = min 100 ((all_star p / era_star_target (era p)) * 100);
          defensive_points = dpoy p * 15 + all_defensive_first p * 5
            + all_defensive_second p * 2 + steals_leader p * 3 + blocks_leader p * 3;
          defensive_score = min 100 ((defensive_points / 50.0) * 100);
          scoring_score = min 100 ((scoring_titles p / 7.0) * 100)
      in 0.25 * mvp_score + 0.25 * all_nba_score + 0.15 * all_star_score
         + 0.20 * defensive_score + 0.15 * scoring_score)"

definition calculate_individual_honors :: "player list \<Rightarrow> real list" where
  "calculate_individual_honors player_data = map individual_honors_of player_data"

fun era_avg_ts :: "era \<Rightarrow> real" where
  "era_avg_ts pre_merger = 0.470"
| "era_avg_ts early_modern = 0.520"
| "era_avg_ts golden_age = 0.535"
| "era_avg_ts post_jordan = 0.525"
| "era_avg_ts modern = 0.560"

definition drb_target :: "string \<Rightarrow> real" where
  "drb_target pos_category =
     (case map_of [(''C'', 7.0), (''F'', 5.0), (''G'', 3.0)] pos_category of
        Some t \<Rightarrow> t | None \<Rightarrow> 5.0)"

definition statistical_excellence_of :: "player \<Rightarrow> real" where
  "statistical_excellence_of p =
     (let ppg_score = calculate_era_adjusted_stat (career_ppg p) ''ppg'' (era p);
          ts_vs_era = (career_ts_pct p - era_avg_ts (era p)) * 1000;
          efficiency_score = min 100 (max 0 (50 + ts_vs_era));
          stl_score = calculate_era_adjusted_stat (career_stl_per_g p) ''stl'' (era p);
          blk_score = calculate_era_adjusted_stat (career_blk_per_g p) ''blk'' (era p);
          position = primary_position p;
          pos_category = (if sublist ''C'' position then ''C''
                          else if sublist ''G'' position then ''G'' else ''F'');
          drb_score = min 100 ((career_drb_per_g p / drb_target pos_category) * 100);
          defensive_stat_score = stl_score * 0.4 + blk_score * 0.4 + drb_score * 0.2;
          per_score = min 100 (((career_per p - 15) / 12) * 100)
      in 0.25 * ppg_score + 0.25 * efficiency_score + 0.25 * defensive_stat_score
         + 0.25 * per_score)"

definition calculate_statistical_excellence :: "player list \<Rightarrow> real list" where
  "calculate_statistical_excellence player_data = map statistical_excellence_of player_data"

definition longevity_of :: "player \<Rightarrow> real" where
  "longevity_of p =
     (let seasons = seasons_played p;
          seasons_score = min 100 ((seasons / 18.0) * 100);
          games_score = min 100 ((career_games p / 1300.0) * 100);
          quality_ratio = (if seasons > 0 then all_star p / seasons else 0);
          quality_score = min 100 (quality_ratio * 120);
          mpg_score = min 100 ((career_mpg p / 36.0) * 100)
      in 0.30 * seasons_score + 0.30 * games_score + 0.25 * quality_score
         + 0.15 * mpg_score)"

definition calculate_longevity :: "player list \<Rightarrow> real list" where
  "calculate_longevity player_data = map longevity_of player_data"

subsection \<open>The SWISH score and the GOAT rank\<close>


text \<open>Reading the two columns that the ranking is about. The calculator reads them only
  after it has written them, as a float and as an integer.\<close>

definition SWISH_Score :: "player_row \<Rightarrow> real" where
  "SWISH_Score r = (case other_columns r ''SWISH_Score'' of Some (FloatCell x) \<Rightarrow> x | _ \<Rightarrow> 0)"

definition GOAT_Rank :: "player_row \<Rightarrow> int" where
  "GOAT_Rank r = (case other_columns r ''GOAT_Rank'' of Some (IntCell i) \<Rightarrow> i | _ \<Rightarrow> 0)"

text \<open>The seven column assignments of \<open>calculate_swish_score\<close> that come before the
  sort: each list of scores is written into the table by position, and the SWISH score
  is computed from the six columns just written.\<close>

definition add_score_columns :: "player_row list \<Rightarrow> player_row list" where
  "add_score_columns player_data =
     (let peak = calculate_peak_dominance (map stats player_data);
          career = calculate_career_value (map stats player_data);
          champ = calculate_championship_impact (map stats player_data);
          honors = calculate_individual_honors (map stats player_data);
          excellence = calculate_statistical_excellence (map stats player_data);
          longevity = calculate_longevity (map stats player_data)
      in map (\<lambda>k. (player_data ! k)\<lparr>other_columns :=
                (other_columns (player_data ! k))
                  (''peak_dominance_score'' \<mapsto> FloatCell (peak ! k),
                   ''career_value_score'' \<mapsto> FloatCell (career ! k),
                   ''championship_impact_score'' \<mapsto> FloatCell (champ ! k),
                   ''individual_honors_score'' \<mapsto> FloatCell (honors ! k),
                   ''statistical_excellence_score'' \<mapsto> FloatCell (excellence ! k),
                   ''longevity_score'' \<mapsto> FloatCell (longevity ! k),
                   ''SWISH_Score'' \<mapsto> FloatCell
                      (0.20 * (peak ! k) + 0.20 * (career ! k) + 0.15 * (honors ! k)
                       + 0.20 * (champ ! k) + 0.15 * (excellence ! k)
                       + 0.10 * (longevity ! k)))\<rparr>)
           [0..<length player_data])"

definition calculate_swish_score :: "player_row list \<Rightarrow> player_row list" where
  "calculate_swish_score player_data =
     (let df = sort_values_desc SWISH_Score (add_score_columns player_data)
      in map (\<lambda>(i, r). r\<lparr>other_columns :=
                (other_columns r)(''GOAT_Rank'' \<mapsto> IntCell i,
                                  ''swish_version'' \<mapsto> StrCell ''2.1'')\<rparr>)
           (zip [1..int (length df)] df))"


section \<open>swish\_score\_calculator.py\<close>







section \<open>scripts/predictive\_model.py and scripts/weighted\_model\_v2.py\<close>

subsection \<open>Weights\<close>

text \<open>A weights dictionary: the factor names with their weights, in insertion order.\<close>

type_synonym weights = "(string \<times> real) list"


definition wm_default_weights :: weights where
  "wm_default_weights =
     [(''offensive_efficiency'', 0.35), (''defensive_efficiency'', 0.35), (''momentum'', 0.15),
      (''schedule_strength'', 0.10), (''dominance'', 0.05)]"

text \<open>The loop \<open>for key in self.weights: self.weights[key] = self.weights[key] / total\<close>
  (\<open>tot\<close> is the script's \<open>total\<close>). Dividing a Python float by zero raises
  ZeroDivisionError.\<close>

fun normalize_weights :: "real \<Rightarrow> weights \<Rightarrow> py_error + weights" where
  "normalize_weights tot [] = Inr []"
| "normalize_weights tot ((key, w) # rest) =
     (if tot = 0 then Inl ZeroDivisionError
      else (case normalize_weights tot rest of
              Inl e \<Rightarrow> Inl e
            | Inr rest' \<Rightarrow> Inr ((key, w / tot) # rest')))"

text \<open>The part of \<open>__init__\<close> that the two classes share, after the default is chosen.\<close>

definition init_weights :: "weights \<Rightarrow> py_error + weights" where
  "init_weights ws =
     (let tot = sum_list (map snd ws)
      in if \<bar>tot - 1.0\<bar> > 0.001 then normalize_weights tot ws else Inr ws)"


definition wm_init :: "weights option \<Rightarrow> py_error + weights" where
  "wm_init weights =
     init_weights (case weights of None \<Rightarrow> wm_default_weights | Some ws \<Rightarrow> ws)"

subsection \<open>Loading\<close>

text \<open>\<open>PredictivePowerRankingModel.load_data\<close> only reads its files; their contents are
  kept as rows of text.\<close>

type_synonym csv_table = "string list list"

record pm_dir =
  pm_kenpom_rankings_latest :: "csv_table option"
  pm_kenpom_four_factors_latest :: "csv_table option"
  pm_kenpom_tempo_stats_latest :: "csv_table option"
  pm_kenpom_exciting_games_latest :: "csv_table option"
  pm_kenpom_upset_games_latest :: "csv_table option"

record pm_tables =
  pm_rankings :: csv_table
  pm_four_factors :: csv_table
  pm_tempo_stats :: csv_table
  pm_games :: "csv_table option"
  pm_upsets :: "csv_table option"

text \<open>The three core files are read outside any \<open>try\<close>; the two game files inside one
  \<open>try\<close> whose \<open>except\<close> sets both tables to \<open>None\<close>.\<close>

definition load_data :: "pm_dir \<Rightarrow> py_error + pm_tables" where
  "load_data dir =
     (case pm_kenpom_rankings_latest dir of None \<Rightarrow> Inl FileNotFoundError
      | Some rankings \<Rightarrow>
     (case pm_kenpom_four_factors_latest dir of None \<Rightarrow> Inl FileNotFoundError
      | Some four_factors \<Rightarrow>
     (case pm_kenpom_tempo_stats_latest dir of None \<Rightarrow> Inl FileNotFoundError
      | Some tempo_stats \<Rightarrow>
        (case pm_kenpom_exciting_games_latest dir of
           None \<Rightarrow>
             Inr \<lparr>pm_rankings = rankings, pm_four_factors = four_factors,
                  pm_tempo_stats = tempo_stats, pm_games = None, pm_upsets = None\<rparr>
         | Some games \<Rightarrow>
             (case pm_kenpom_upset_games_latest dir of
                None \<Rightarrow>
                  Inr \<lparr>pm_rankings = rankings, pm_four_factors = four_factors,
                       pm_tempo_stats = tempo_stats, pm_games = None, pm_upsets = None\<rparr>
              | Some upsets \<Rightarrow>
                  Inr \<lparr>pm_rankings = rankings, pm_four_factors = four_factors,
                       pm_tempo_stats = tempo_stats, pm_games = Some games,
                       pm_upsets = Some upsets\<rparr>)))))"

subsection \<open>Momentum\<close>



section \<open>Example tables\<close>

text \<open>Three teams; Duke and Houston have the same statistics and so the same final
  score.\<close>

definition demo_teams :: "team_row list" where
  "demo_teams =
    [\<lparr>Team = ''Duke'', Conference = ''ACC'', AdjEM = 30, AdjEM_Rank = 1, AdjOE = 120,
      AdjOE_Rank = 1, AdjDE = 90, AdjDE_Rank = 1, Experience = 2.0, Off_TO = 15, Def_TO = 20,
      Turnover_Margin = 5\<rparr>,
     \<lparr>Team = ''Army'', Conference = ''Pat'', AdjEM = -5, AdjEM_Rank = 3, AdjOE = 100,
      AdjOE_Rank = 3, AdjDE = 105, AdjDE_Rank = 3, Experience = 2.6, Off_TO = 19, Def_TO = 15,
      Turnover_Margin = -4\<rparr>,
     \<lparr>Team = ''Houston'', Conference = ''B12'', AdjEM = 30, AdjEM_Rank = 1, AdjOE = 120,
      AdjOE_Rank = 1, AdjDE = 90, AdjDE_Rank = 1, Experience = 2.0, Off_TO = 15, Def_TO = 20,
      Turnover_Margin = 5\<rparr>]"

definition demo_rankings :: "ranked_row list" where
  "demo_rankings = projr (generate_rankings demo_teams)"

text \<open>Two players of the modern era; the second has a below-average efficiency rating
  and no other statistics.\<close>

definition blank_player :: "string \<Rightarrow> player" where
  "blank_player nm =
    \<lparr>name = nm, primary_position = ''G'', career_start = Some 2010, career_end = Some 2020,
     championships = 0, peak_ppg = Some 0, career_per = 15, career_games = 1, career_ws = 0,
     mvp_shares = 0, career_vorp = 0, career_ppg = Some 0, career_rpg = Some 0,
     career_apg = Some 0, finals_mvp = 0, playoff_pts_per_g = 0, playoff_g = 0, mvp = 0,
     all_nba_first = 0, all_nba_second = 0, all_nba_third = 0, all_star = 0, dpoy = 0,
     all_defensive_first = 0, all_defensive_second = 0, steals_leader = 0, blocks_leader = 0,
     scoring_titles = 0, career_ts_pct = 0.5, career_stl_per_g = Some 0,
     career_blk_per_g = Some 0, career_drb_per_g = 0, seasons_played = 1, career_mpg = 0,
     era = modern\<rparr>"

definition demo_players :: "player_row list" where
  "demo_players =
     [\<lparr>stats = (blank_player ''Reserve Guard'')\<lparr>career_per := 9\<rparr>,
       other_columns = Map.empty\<rparr>,
      \<lparr>stats = (blank_player ''Star Guard'')\<lparr>career_per := 31, mvp := 4, championships := 5\<rparr>,
       other_columns = [''college'' \<mapsto> StrCell ''State'']\<rparr>]"


text \<open>A table with one team whose reference rank is the least 64-bit integer.\<close>

definition extreme_rank_teams :: "team_row list" where
  "extreme_rank_teams =
    [\<lparr>Team = ''Duke'', Conference = ''ACC'', AdjEM = 30,
      AdjEM_Rank = - 9223372036854775808, AdjOE = 120, AdjOE_Rank = 1, AdjDE = 90,
      AdjDE_Rank = 1, Experience = 2.0, Off_TO = 15, Def_TO = 20, Turnover_Margin = 5\<rparr>]"

definition extreme_rankings :: "ranked_row list" where
  "extreme_rankings = projr (generate_rankings extreme_rank_teams)"

definition demo_fpm_teams :: "fpm_row list" where
  "demo_fpm_teams =
    [\<lparr>fp_Team = ''Duke'', fp_Conference = ''ACC'', fp_AdjEM = 30, fp_AdjEM_Rank = 1,
      fp_AdjOE = 120, fp_AdjOE_Rank = 30, fp_AdjDE = 90, fp_AdjDE_Rank = 1,
      fp_Experience = 2.2, Tempo_Adj_Rank_tempo = None, Tempo_Adj_Rank = Some 40\<rparr>,
     \<lparr>fp_Team = ''Army'', fp_Conference = ''Pat'', fp_AdjEM = - 5, fp_AdjEM_Rank = 3,
      fp_AdjOE = 100, fp_AdjOE_Rank = 200, fp_AdjDE = 105, fp_AdjDE_Rank = 150,
      fp_Experience = 2.1, Tempo_Adj_Rank_tempo = None, Tempo_Adj_Rank = Some 200\<rparr>]"

definition demo_player_stats :: "player_stats_row list" where
  "demo_player_stats = [\<lparr>pl_Team = ''Duke''\<rparr>, \<lparr>pl_Team = ''Duke''\<rparr>]"

definition demo_fpm_rankings :: "fpm_ranked_row list" where
  "demo_fpm_rankings = projr (fpm_generate_rankings demo_fpm_teams demo_player_stats)"

definition demo_teams_no_tie :: "team_row list" where
  "demo_teams_no_tie = take 2 demo_teams"

section \<open>Dense rank, as the specification words it\<close>

text \<open>The glossary of the specification: dense rank is ranking without gaps for ties
  (1, 2, 2, 3, ...). The dense rank of a score among the scores of a table is one more
  than the number of distinct scores that are strictly higher.\<close>

definition spec_dense_rank :: "real list \<Rightarrow> real \<Rightarrow> int" where
  "spec_dense_rank scores s = 1 + int (length (remdups (filter (\<lambda>t. t > s) scores)))"

definition demo_rankings_no_tie :: "ranked_row list" where
  "demo_rankings_no_tie = projr (generate_rankings demo_teams_no_tie)"

section \<open>Percentile rank, as the specification words it\<close>

text \<open>The entities other than the one at position \<open>k\<close>.\<close>

definition others :: "'a list \<Rightarrow> nat \<Rightarrow> 'a list" where
  "others data k = take k data @ drop (Suc k) data"

text \<open>The specification: the fraction of other entities strictly worse on the raw
  metric, scaled to 0-100. \<open>worse r e\<close> says that \<open>r\<close> is strictly worse than \<open>e\<close>.\<close>

definition spec_percentile_rank :: "('a \<Rightarrow> 'a \<Rightarrow> bool) \<Rightarrow> 'a list \<Rightarrow> nat \<Rightarrow> real" where
  "spec_percentile_rank worse data k =
     real (length (filter (\<lambda>r. worse r (data ! k)) (others data k)))
       / real (length (others data k)) * 100"

text \<open>The same count of other entities, divided by the number of all entities.\<close>

definition percentile_of_all :: "('a \<Rightarrow> 'a \<Rightarrow> bool) \<Rightarrow> 'a list \<Rightarrow> nat \<Rightarrow> real" where
  "percentile_of_all worse data k =
     real (length (filter (\<lambda>r. worse r (data ! k)) (others data k)))
       / real (length data) * 100"

text \<open>Two teams outside the top 25 of every ranking, the first better on defence.\<close>

definition pct_teams :: "team_row list" where
  "pct_teams =
    [\<lparr>Team = ''Yale'', Conference = ''Ivy'', AdjEM = 10, AdjEM_Rank = 60, AdjOE = 110,
      AdjOE_Rank = 60, AdjDE = 100, AdjDE_Rank = 60, Experience = 2.2, Off_TO = 17,
      Def_TO = 17, Turnover_Margin = 0\<rparr>,
     \<lparr>Team = ''Army'', Conference = ''Pat'', AdjEM = -5, AdjEM_Rank = 200, AdjOE = 100,
      AdjOE_Rank = 200, AdjDE = 105, AdjDE_Rank = 200, Experience = 2.1, Off_TO = 17,
      Def_TO = 17, Turnover_Margin = 0\<rparr>]"

section \<open>Further example inputs\<close>







text \<open>A data directory for final\_model\_v3.py in which Yale has no personnel row, before
  any run and after one run.\<close>

definition demo_dir :: v3_dir where
  "demo_dir =
    \<lparr>kenpom_rankings_latest = Some
       [\<lparr>rk_Team = ''Duke'', rk_Conference = ''ACC'', rk_AdjEM = 30, rk_AdjEM_Rank = 1,
         rk_AdjOE = 120, rk_AdjOE_Rank = 1, rk_AdjDE = 90, rk_AdjDE_Rank = 1\<rparr>,
        \<lparr>rk_Team = ''Army'', rk_Conference = ''Pat'', rk_AdjEM = - 5, rk_AdjEM_Rank = 3,
         rk_AdjOE = 100, rk_AdjOE_Rank = 3, rk_AdjDE = 105, rk_AdjDE_Rank = 3\<rparr>,
        \<lparr>rk_Team = ''Yale'', rk_Conference = ''Ivy'', rk_AdjEM = 10, rk_AdjEM_Rank = 2,
         rk_AdjOE = 110, rk_AdjOE_Rank = 2, rk_AdjDE = 100, rk_AdjDE_Rank = 2\<rparr>],
     kenpom_height_experience_latest = Some
       [\<lparr>ps_Team = ''Duke'', ps_Experience = 2.0\<rparr>,
        \<lparr>ps_Team = ''Army'', ps_Experience = 2.6\<rparr>],
     kenpom_four_factors_latest = Some
       [\<lparr>ff_Team = ''Army'', ff_Off_TO = 19, ff_Def_TO = 15\<rparr>,
        \<lparr>ff_Team = ''Duke'', ff_Off_TO = 15, ff_Def_TO = 20\<rparr>,
        \<lparr>ff_Team = ''Yale'', ff_Off_TO = 17, ff_Def_TO = 17\<rparr>],
     final_predictive_rankings_v3 = None\<rparr>"


text \<open>A data directory for predictive\_model.py with the three core files and the first
  of the two game files.\<close>

definition demo_pm_dir :: pm_dir where
  "demo_pm_dir =
    \<lparr>pm_kenpom_rankings_latest = Some [[''Team''], [''Duke'']],
     pm_kenpom_four_factors_latest = Some [[''Team''], [''Duke'']],
     pm_kenpom_tempo_stats_latest = Some [[''Team''], [''Duke'']],
     pm_kenpom_exciting_games_latest = Some [[''Game''], [''Duke-Army'']],
     pm_kenpom_upset_games_latest = None\<rparr>"


section \<open>Properties of the NCAA ranking scripts\<close>

subsection \<open>Ranking in final\_model\_v3.py\<close>

lemma length_assign_final_rank: "length (assign_final_rank df) = length df"
  by (simp add: assign_final_rank_def)

lemma nth_assign_final_rank:
  assumes "k < length df"
  shows "assign_final_rank df ! k =
    result_row.extend (df ! k)
      \<lparr>Final_Rank = 1 + int k, Rank_Change = int64_wrap (KenPom_Rank (df ! k) - (1 + int k))\<rparr>"
  using assms by (simp add: assign_final_rank_def)

lemma Final_Rank_nth: "k < length df \<Longrightarrow> Final_Rank (assign_final_rank df ! k) = 1 + int k"
  by (simp add: nth_assign_final_rank result_row.defs)

lemma Final_Score_nth: "k < length df \<Longrightarrow> Final_Score (assign_final_rank df ! k) = Final_Score (df ! k)"
  by (simp add: nth_assign_final_rank result_row.defs)

lemma KenPom_Rank_nth: "k < length df \<Longrightarrow> KenPom_Rank (assign_final_rank df ! k) = KenPom_Rank (df ! k)"
  by (simp add: nth_assign_final_rank result_row.defs)

lemma Rank_Change_nth:
  "k < length df \<Longrightarrow>
     Rank_Change (assign_final_rank df ! k) = int64_wrap (KenPom_Rank (df ! k) - (1 + int k))"
  by (simp add: nth_assign_final_rank result_row.defs)

lemma truncate_nth: "k < length df \<Longrightarrow> result_row.truncate (assign_final_rank df ! k) = df ! k"
  by (simp add: nth_assign_final_rank result_row.defs)

lemma sorted_sort_values_desc:
  "sorted_wrt (\<lambda>a b. col a \<ge> col b) (sort_values_desc col df)"
proof -
  have "sorted (map (\<lambda>r. - col r) (sort_key (\<lambda>r. - col r) df))" by (rule sorted_sort_key)
  then show ?thesis
    by (simp add: sort_values_desc_def sorted_wrt_map)
qed


lemma length_sort_values_desc: "length (sort_values_desc col df) = length df"
  by (simp add: sort_values_desc_def)

lemma set_sort_values_desc: "set (sort_values_desc col df) = set df"
  by (simp add: sort_values_desc_def)

lemma recent_performance_total:
  assumes "row \<in> set data"
  shows "\<exists>v. calculate_recent_performance data (Team row) = Inr v"
proof -
  from assms have "find (\<lambda>r. Team r = Team row) data \<noteq> None"
    by (auto simp: find_None_iff)
  then show ?thesis
    by (auto simp: calculate_recent_performance_def Let_def)
qed

lemma total_score_total:
  assumes "row \<in> set data"
  shows "\<exists>t s. calculate_total_score data row = Inr (t, s)"
  using recent_performance_total [OF assms]
  by (auto simp: calculate_total_score_def Let_def)

lemma collect_results_total:
  assumes "set rows \<subseteq> set data"
  shows "\<exists>results. collect_results data rows = Inr results"
  using assms
proof (induction rows)
  case Nil
  then show ?case by simp
next
  case (Cons row rows)
  then obtain t s where "calculate_total_score data row = Inr (t, s)"
    using total_score_total [of row data] by auto
  moreover from Cons obtain results where "collect_results data rows = Inr results" by auto
  ultimately show ?case by simp
qed

lemma collect_results_shape:
  assumes "collect_results data rows = Inr results"
  shows "length results = length rows \<and>
     (\<forall>k < length rows. \<exists>t s. calculate_total_score data (rows ! k) = Inr (t, s) \<and>
         results ! k = make_result (rows ! k) t s)"
  using assms
proof (induction rows arbitrary: results)
  case Nil
  then show ?case by simp
next
  case (Cons row rows)
  from Cons.prems obtain t s rest where
    ts: "calculate_total_score data row = Inr (t, s)" and
    rest: "collect_results data rows = Inr rest" and
    res: "results = make_result row t s # rest"
    by (auto split: sum.splits)
  from Cons.IH [OF rest] have ih: "length rest = length rows"
    "\<forall>k < length rows. \<exists>t s. calculate_total_score data (rows ! k) = Inr (t, s) \<and>
         rest ! k = make_result (rows ! k) t s" by auto
  show ?case
  proof (intro conjI allI impI)
    show "length results = length (row # rows)" using ih res by simp
  next
    fix k assume "k < length (row # rows)"
    then show "\<exists>t s. calculate_total_score data ((row # rows) ! k) = Inr (t, s) \<and>
         results ! k = make_result ((row # rows) ! k) t s"
      using ts ih res by (cases k) auto
  qed
qed

lemma generate_rankings_total:
  assumes "data \<noteq> []"
  shows "\<exists>res. generate_rankings data = Inr res"
proof -
  obtain results where c: "collect_results data data = Inr results"
    using collect_results_total [of data data] by auto
  from collect_results_shape [OF c] have "length results = length data" by (rule conjunct1)
  with assms have "results \<noteq> []" by auto
  with c show ?thesis by (simp add: generate_rankings_def)
qed

lemma generate_rankings_Inr:
  assumes "generate_rankings data = Inr res"
  obtains results where "collect_results data data = Inr results"
    and "results \<noteq> []"
    and "res = assign_final_rank (sort_values_desc Final_Score results)"
  using assms by (auto simp: generate_rankings_def split: sum.splits if_splits)

lemma int64_wrap_in_range:
  "- 9223372036854775808 \<le> x \<Longrightarrow> x < 9223372036854775808 \<Longrightarrow> int64_wrap x = x"
  by (simp add: int64_wrap_def)

lemma v3_rank_change:
  assumes "generate_rankings data = Inr res"
  shows "\<forall>r \<in> set res. Rank_Change r = int64_wrap (KenPom_Rank r - Final_Rank r) \<and>
           (\<exists>t \<in> set data. res_Team r = Team t \<and> KenPom_Rank r = AdjEM_Rank t)"
proof
  fix r assume r: "r \<in> set res"
  from assms obtain results where
    c: "collect_results data data = Inr results" and
    res: "res = assign_final_rank (sort_values_desc Final_Score results)"
    by (rule generate_rankings_Inr)
  let ?s = "sort_values_desc Final_Score results"
  from r res obtain k where k: "k < length ?s" "r = assign_final_rank ?s ! k"
    by (auto simp: in_set_conv_nth length_assign_final_rank)
  have rc: "Rank_Change r = int64_wrap (KenPom_Rank r - Final_Rank r)"
    using k by (simp add: Rank_Change_nth KenPom_Rank_nth Final_Rank_nth)
  have "?s ! k \<in> set results" using k(1) set_sort_values_desc nth_mem by metis
  then obtain j where j: "j < length results" "results ! j = ?s ! k"
    by (auto simp: in_set_conv_nth)
  from collect_results_shape [OF c] have len: "length results = length data"
    and sh: "\<forall>k < length data. \<exists>t s. results ! k = make_result (data ! k) t s" by blast+
  from j len have jd: "j < length data" by simp
  with sh obtain t s where "results ! j = make_result (data ! j) t s" by blast
  with j have "?s ! k = make_result (data ! j) t s" by simp
  then have "res_Team (?s ! k) = Team (data ! j)" "KenPom_Rank (?s ! k) = AdjEM_Rank (data ! j)"
    by (simp_all add: make_result_def)
  moreover have "res_Team r = res_Team (?s ! k)" "KenPom_Rank r = KenPom_Rank (?s ! k)"
    using k by (simp_all add: nth_assign_final_rank result_row.defs)
  ultimately have "\<exists>t \<in> set data. res_Team r = Team t \<and> KenPom_Rank r = AdjEM_Rank t"
    using jd nth_mem by fastforce
  with rc show "Rank_Change r = int64_wrap (KenPom_Rank r - Final_Rank r) \<and>
           (\<exists>t \<in> set data. res_Team r = Team t \<and> KenPom_Rank r = AdjEM_Rank t)" by simp
qed

lemma v3_ranking_monotone:
  assumes "generate_rankings data = Inr res"
  shows "\<forall>e1 \<in> set res. \<forall>e2 \<in> set res.
           Final_Rank e1 < Final_Rank e2 \<longrightarrow> Final_Score e1 \<ge> Final_Score e2"
proof (intro ballI impI)
  fix e1 e2 assume e: "e1 \<in> set res" "e2 \<in> set res" and lt: "Final_Rank e1 < Final_Rank e2"
  from assms obtain results where
    res: "res = assign_final_rank (sort_values_desc Final_Score results)"
    by (rule generate_rankings_Inr)
  let ?s = "sort_values_desc Final_Score results"
  from e res obtain i j where i: "i < length ?s" "e1 = assign_final_rank ?s ! i"
    and j: "j < length ?s" "e2 = assign_final_rank ?s ! j"
    by (auto simp: in_set_conv_nth length_assign_final_rank)
  from lt i j have "i < j" by (simp add: Final_Rank_nth)
  with sorted_sort_values_desc [of Final_Score results] j(1)
  have "Final_Score (?s ! i) \<ge> Final_Score (?s ! j)"
    by (simp add: sorted_wrt_iff_nth_less)
  then show "Final_Score e1 \<ge> Final_Score e2"
    using i j by (simp add: Final_Score_nth)
qed

lemma map_Final_Rank: "map Final_Rank (assign_final_rank df) = [1..int (length df)]"
proof (rule nth_equalityI)
  show "length (map Final_Rank (assign_final_rank df)) = length [1..int (length df)]"
    by (simp add: length_assign_final_rank)
next
  fix k assume "k < length (map Final_Rank (assign_final_rank df))"
  then have k: "k < length df" by (simp add: length_assign_final_rank)
  then show "map Final_Rank (assign_final_rank df) ! k = [1..int (length df)] ! k"
    by (simp add: length_assign_final_rank Final_Rank_nth)
qed


subsection \<open>Ranking in final\_predictive\_model.py\<close>

lemma length_fpm_assign_final_rank: "length (fpm_assign_final_rank df) = length df"
  by (simp add: fpm_assign_final_rank_def)

lemma nth_fpm_assign_final_rank:
  assumes "k < length df"
  shows "fpm_assign_final_rank df ! k =
    fpm_result_row.extend (df ! k)
      \<lparr>fpm_Final_Rank = 1 + int k,
       fpm_Rank_Change = int64_wrap (fpm_KenPom_Rank (df ! k) - (1 + int k))\<rparr>"
  using assms by (simp add: fpm_assign_final_rank_def)

lemma fpm_generate_rankings_Inr:
  assumes "fpm_generate_rankings data player_stats = Inr res"
  obtains results where "fpm_collect_results data player_stats data = Inr results"
    and "results \<noteq> []"
    and "res = fpm_assign_final_rank (sort_values_desc fpm_Final_Score results)"
  using assms by (auto simp: fpm_generate_rankings_def split: sum.splits if_splits)

lemma fpm_collect_results_shape:
  assumes "fpm_collect_results data player_stats rows = Inr results"
  shows "length results = length rows \<and>
     (\<forall>k < length rows. \<exists>t s. results ! k = fpm_make_result player_stats (rows ! k) t s)"
  using assms
proof (induction rows arbitrary: results)
  case Nil
  then show ?case by simp
next
  case (Cons row rows)
  from Cons.prems obtain t s rest where
    rest: "fpm_collect_results data player_stats rows = Inr rest" and
    res: "results = fpm_make_result player_stats row t s # rest"
    by (auto split: sum.splits)
  from Cons.IH [OF rest] have ih: "length rest = length rows"
    "\<forall>k < length rows. \<exists>t s. rest ! k = fpm_make_result player_stats (rows ! k) t s" by auto
  show ?case
  proof (intro conjI allI impI)
    show "length results = length (row # rows)" using ih res by simp
  next
    fix k assume "k < length (row # rows)"
    then show "\<exists>t s. results ! k = fpm_make_result player_stats ((row # rows) ! k) t s"
      using ih res by (cases k) auto
  qed
qed

lemma fpm_rank_change:
  assumes "fpm_generate_rankings data player_stats = Inr res"
  shows "\<forall>r \<in> set res. fpm_Rank_Change r = int64_wrap (fpm_KenPom_Rank r - fpm_Final_Rank r) \<and>
           (\<exists>t \<in> set data. fr_Team r = fp_Team t \<and> fpm_KenPom_Rank r = fp_AdjEM_Rank t)"
proof
  fix r assume r: "r \<in> set res"
  from assms obtain results where
    c: "fpm_collect_results data player_stats data = Inr results" and
    res: "res = fpm_assign_final_rank (sort_values_desc fpm_Final_Score results)"
    by (rule fpm_generate_rankings_Inr)
  let ?s = "sort_values_desc fpm_Final_Score results"
  from r res obtain k where k: "k < length ?s" "r = fpm_assign_final_rank ?s ! k"
    by (auto simp: in_set_conv_nth length_fpm_assign_final_rank)
  have rc: "fpm_Rank_Change r = int64_wrap (fpm_KenPom_Rank r - fpm_Final_Rank r)"
    using k by (simp add: nth_fpm_assign_final_rank fpm_result_row.defs)
  have "?s ! k \<in> set results" using k(1) set_sort_values_desc nth_mem by metis
  then obtain j where j: "j < length results" "results ! j = ?s ! k"
    by (auto simp: in_set_conv_nth)
  from fpm_collect_results_shape [OF c] have len: "length results = length data"
    and sh: "\<forall>k < length data. \<exists>t s. results ! k = fpm_make_result player_stats (data ! k) t s"
    by blast+
  from j len have jd: "j < length data" by simp
  with sh obtain t s where "results ! j = fpm_make_result player_stats (data ! j) t s" by blast
  with j have "?s ! k = fpm_make_result player_stats (data ! j) t s" by simp
  then have "fr_Team (?s ! k) = fp_Team (data ! j)"
    "fpm_KenPom_Rank (?s ! k) = fp_AdjEM_Rank (data ! j)"
    by (simp_all add: fpm_make_result_def)
  moreover have "fr_Team r = fr_Team (?s ! k)" "fpm_KenPom_Rank r = fpm_KenPom_Rank (?s ! k)"
    using k by (simp_all add: nth_fpm_assign_final_rank fpm_result_row.defs)
  ultimately have "\<exists>t \<in> set data. fr_Team r = fp_Team t \<and> fpm_KenPom_Rank r = fp_AdjEM_Rank t"
    using jd nth_mem by fastforce
  with rc show "fpm_Rank_Change r = int64_wrap (fpm_KenPom_Rank r - fpm_Final_Rank r) \<and>
           (\<exists>t \<in> set data. fr_Team r = fp_Team t \<and> fpm_KenPom_Rank r = fp_AdjEM_Rank t)"
    by simp
qed


subsection \<open>Evaluating final\_model\_v3.py on the example table\<close>

lemmas v3_eval = generate_rankings_def calculate_total_score_def
  calculate_recent_performance_def calculate_defensive_rating_def
  calculate_offensive_rating_def calculate_experience_def calculate_turnover_margin_def
  weighted_total_def v3_weights_def make_result_def assign_final_rank_def
  sort_values_desc_def result_row.defs int64_wrap_def Let_def upto.simps

lemma demo_teams_ranked:
  "\<exists>res. generate_rankings demo_teams = Inr res \<and>
     map (\<lambda>r. (res_Team r, Final_Score r, Final_Rank r, KenPom_Rank r, Rank_Change r)) res =
       [(''Duke'', 3463 / 60, 1, 1, 0), (''Houston'', 3463 / 60, 2, 1, - 1),
        (''Army'', 373 / 10, 3, 3, 0)]"
  by (simp add: demo_teams_def v3_eval)

subsection \<open>Evaluating the SWISH calculator on the example players\<close>

lemmas swish_eval = calculate_swish_score_def add_score_columns_def
  calculate_peak_dominance_def calculate_career_value_def calculate_championship_impact_def
  calculate_individual_honors_def calculate_statistical_excellence_def calculate_longevity_def
  peak_dominance_of_def career_value_of_def championship_impact_of_def
  individual_honors_of_def statistical_excellence_of_def longevity_of_def
  calculate_era_adjusted_stat_def drb_target_def sort_values_desc_def
  SWISH_Score_def GOAT_Rank_def Let_def upto.simps

lemma demo_players_ranked:
  "map (\<lambda>r. (name (stats r), SWISH_Score r, GOAT_Rank r)) (calculate_swish_score demo_players) =
     [(''Star Guard'', 80609 / 3900, 1), (''Reserve Guard'', - 30857 / 7800, 2)]"
  by (simp add: demo_players_def blank_player_def swish_eval)

lemma demo_rankings_cols:
  "generate_rankings demo_teams = Inr demo_rankings \<and>
   map (\<lambda>r. (res_Team r, Final_Score r, Final_Rank r, KenPom_Rank r, Rank_Change r))
     demo_rankings =
       [(''Duke'', 3463 / 60, 1, 1, 0), (''Houston'', 3463 / 60, 2, 1, - 1),
        (''Army'', 373 / 10, 3, 3, 0)]"
proof -
  obtain res where res: "generate_rankings demo_teams = Inr res" and
    m: "map (\<lambda>r. (res_Team r, Final_Score r, Final_Rank r, KenPom_Rank r, Rank_Change r)) res =
       [(''Duke'', 3463 / 60, 1, 1, 0), (''Houston'', 3463 / 60, 2, 1, - 1),
        (''Army'', 373 / 10, 3, 3, 0)]"
    using demo_teams_ranked by (elim exE conjE)
  then have "demo_rankings = res" by (simp add: demo_rankings_def)
  with res m show ?thesis by simp
qed

lemma demo_rankings_Final_Score:
  "map Final_Score demo_rankings = [3463 / 60, 3463 / 60, 373 / 10]"
proof -
  have "map Final_Score demo_rankings = map (\<lambda>x. fst (snd x))
     (map (\<lambda>r. (res_Team r, Final_Score r, Final_Rank r, KenPom_Rank r, Rank_Change r))
        demo_rankings)"
    by (simp add: comp_def)
  then show ?thesis by (simp add: demo_rankings_cols)
qed

lemma demo_rankings_Final_Rank: "map Final_Rank demo_rankings = [1, 2, 3]"
proof -
  have "map Final_Rank demo_rankings = map (\<lambda>x. fst (snd (snd x)))
     (map (\<lambda>r. (res_Team r, Final_Score r, Final_Rank r, KenPom_Rank r, Rank_Change r))
        demo_rankings)"
    by (simp add: comp_def)
  then show ?thesis by (simp add: demo_rankings_cols)
qed

lemma demo_players_SWISH_Score:
  "map SWISH_Score (calculate_swish_score demo_players) = [80609 / 3900, - 30857 / 7800]"
proof -
  have "map SWISH_Score (calculate_swish_score demo_players) = map (\<lambda>x. fst (snd x))
     (map (\<lambda>r. (name (stats r), SWISH_Score r, GOAT_Rank r)) (calculate_swish_score demo_players))"
    by (simp add: comp_def)
  then show ?thesis by (simp add: demo_players_ranked)
qed

lemma demo_players_GOAT_Rank:
  "map GOAT_Rank (calculate_swish_score demo_players) = [1, 2]"
proof -
  have "map GOAT_Rank (calculate_swish_score demo_players) = map (\<lambda>x. snd (snd x))
     (map (\<lambda>r. (name (stats r), SWISH_Score r, GOAT_Rank r)) (calculate_swish_score demo_players))"
    by (simp add: comp_def)
  then show ?thesis by (simp add: demo_players_ranked)
qed

lemma nth_of_map_eq: "map f xs = ys \<Longrightarrow> k < length ys \<Longrightarrow> f (xs ! k) = ys ! k \<and> xs ! k \<in> set xs"
  by (metis length_map nth_map nth_mem)

lemmas fpm_eval = fpm_generate_rankings_def fpm_calculate_total_score_def
  fpm_calculate_recent_performance_def fpm_calculate_defensive_rating_def
  fpm_calculate_offensive_rating_def fpm_calculate_experience_def
  fpm_calculate_star_power_def fpm_star_count_def fpm_calculate_pace_control_def
  fpm_tempo_score_def fpm_weighted_total_def fpm_weights_def fpm_make_result_def
  fpm_assign_final_rank_def sort_values_desc_def fpm_result_row.defs int64_wrap_def
  Let_def upto.simps

lemma demo_fpm_teams_ranked:
  "\<exists>res. fpm_generate_rankings demo_fpm_teams demo_player_stats = Inr res \<and>
     map (\<lambda>r. (fr_Team r, fpm_Final_Rank r, fpm_KenPom_Rank r, fpm_Rank_Change r)) res =
       [(''Duke'', 1, 1, 0), (''Army'', 2, 3, 1)]"
  by (simp add: demo_fpm_teams_def demo_player_stats_def fpm_eval)

lemma demo_fpm_rankings_cols:
  "fpm_generate_rankings demo_fpm_teams demo_player_stats = Inr demo_fpm_rankings \<and>
   map (\<lambda>r. (fr_Team r, fpm_Final_Rank r, fpm_KenPom_Rank r, fpm_Rank_Change r))
     demo_fpm_rankings = [(''Duke'', 1, 1, 0), (''Army'', 2, 3, 1)]"
proof -
  obtain res where res: "fpm_generate_rankings demo_fpm_teams demo_player_stats = Inr res" and
    m: "map (\<lambda>r. (fr_Team r, fpm_Final_Rank r, fpm_KenPom_Rank r, fpm_Rank_Change r)) res =
       [(''Duke'', 1, 1, 0), (''Army'', 2, 3, 1)]"
    using demo_fpm_teams_ranked by (elim exE conjE)
  then have "demo_fpm_rankings = res" by (simp add: demo_fpm_rankings_def)
  with res m show ?thesis by simp
qed

lemma extreme_rank_teams_ranked:
  "\<exists>res. generate_rankings extreme_rank_teams = Inr res \<and>
     map (\<lambda>r. (res_Team r, Final_Rank r, KenPom_Rank r, Rank_Change r)) res =
       [(''Duke'', 1, - 9223372036854775808, 9223372036854775807)]"
  by (simp add: extreme_rank_teams_def v3_eval)

lemma extreme_rankings_cols:
  "generate_rankings extreme_rank_teams = Inr extreme_rankings \<and>
   map (\<lambda>r. (res_Team r, Final_Rank r, KenPom_Rank r, Rank_Change r)) extreme_rankings =
       [(''Duke'', 1, - 9223372036854775808, 9223372036854775807)]"
proof -
  obtain res where res: "generate_rankings extreme_rank_teams = Inr res" and
    m: "map (\<lambda>r. (res_Team r, Final_Rank r, KenPom_Rank r, Rank_Change r)) res =
       [(''Duke'', 1, - 9223372036854775808, 9223372036854775807)]"
    using extreme_rank_teams_ranked by (elim exE conjE)
  then have "extreme_rankings = res" by (simp add: extreme_rankings_def)
  with res m show ?thesis by simp
qed

lemma demo_no_tie_ranked:
  "\<exists>res. generate_rankings demo_teams_no_tie = Inr res \<and>
     map (\<lambda>r. (res_Team r, Final_Score r, Final_Rank r)) res =
       [(''Duke'', 1371 / 20, 1), (''Army'', 373 / 10, 2)]"
  by (simp add: demo_teams_no_tie_def demo_teams_def v3_eval)

lemma demo_no_tie_cols:
  "generate_rankings demo_teams_no_tie = Inr demo_rankings_no_tie \<and>
   map (\<lambda>r. (res_Team r, Final_Score r, Final_Rank r)) demo_rankings_no_tie =
       [(''Duke'', 1371 / 20, 1), (''Army'', 373 / 10, 2)]"
proof -
  obtain res where res: "generate_rankings demo_teams_no_tie = Inr res" and
    m: "map (\<lambda>r. (res_Team r, Final_Score r, Final_Rank r)) res =
       [(''Duke'', 1371 / 20, 1), (''Army'', 373 / 10, 2)]"
    using demo_no_tie_ranked by (elim exE conjE)
  then have "demo_rankings_no_tie = res" by (simp add: demo_rankings_no_tie_def)
  with res m show ?thesis by simp
qed

lemma demo_no_tie_Final_Score:
  "map Final_Score demo_rankings_no_tie = [1371 / 20, 373 / 10]"
proof -
  have "map Final_Score demo_rankings_no_tie = map (\<lambda>x. fst (snd x))
     (map (\<lambda>r. (res_Team r, Final_Score r, Final_Rank r)) demo_rankings_no_tie)"
    by (simp add: comp_def)
  then show ?thesis by (simp add: demo_no_tie_cols)
qed


lemma length_add_score_columns: "length (add_score_columns ps) = length ps"
  by (simp add: add_score_columns_def Let_def)





lemma SWISH_Score_add_score_columns:
  "k < length ps \<Longrightarrow> SWISH_Score (add_score_columns ps ! k) =
     0.20 * peak_dominance_of (stats (ps ! k)) + 0.20 * career_value_of (stats (ps ! k))
     + 0.15 * individual_honors_of (stats (ps ! k))
     + 0.20 * championship_impact_of (stats (ps ! k))
     + 0.15 * statistical_excellence_of (stats (ps ! k)) + 0.10 * longevity_of (stats (ps ! k))"
  by (simp add: add_score_columns_def Let_def SWISH_Score_def
      calculate_peak_dominance_def calculate_career_value_def calculate_championship_impact_def
      calculate_individual_honors_def calculate_statistical_excellence_def calculate_longevity_def)

lemma length_calculate_swish_score: "length (calculate_swish_score ps) = length ps"
  by (simp add: calculate_swish_score_def Let_def length_sort_values_desc length_add_score_columns)

lemma nth_calculate_swish_score:
  assumes "k < length ps"
  shows "calculate_swish_score ps ! k =
     (sort_values_desc SWISH_Score (add_score_columns ps) ! k)\<lparr>other_columns :=
        (other_columns (sort_values_desc SWISH_Score (add_score_columns ps) ! k))
          (''GOAT_Rank'' \<mapsto> IntCell (1 + int k), ''swish_version'' \<mapsto> StrCell ''2.1'')\<rparr>"
  using assms
  by (simp add: calculate_swish_score_def Let_def length_sort_values_desc length_add_score_columns)

lemma GOAT_Rank_nth: "k < length ps \<Longrightarrow> GOAT_Rank (calculate_swish_score ps ! k) = 1 + int k"
  by (simp add: nth_calculate_swish_score GOAT_Rank_def)

lemma SWISH_Score_nth:
  "k < length ps \<Longrightarrow> SWISH_Score (calculate_swish_score ps ! k) =
     SWISH_Score (sort_values_desc SWISH_Score (add_score_columns ps) ! k)"
  by (simp add: nth_calculate_swish_score SWISH_Score_def)




lemma swish_ranking_monotone:
  assumes "p1 \<in> set (calculate_swish_score ps)" "p2 \<in> set (calculate_swish_score ps)"
    and "GOAT_Rank p1 < GOAT_Rank p2"
  shows "SWISH_Score p1 \<ge> SWISH_Score p2"
proof -
  let ?s = "sort_values_desc SWISH_Score (add_score_columns ps)"
  from assms obtain i j where i: "i < length ps" "p1 = calculate_swish_score ps ! i"
    and j: "j < length ps" "p2 = calculate_swish_score ps ! j"
    by (auto simp: in_set_conv_nth length_calculate_swish_score)
  from assms(3) i j have "i < j" by (simp add: GOAT_Rank_nth)
  moreover have "j < length ?s" using j by (simp add: length_sort_values_desc length_add_score_columns)
  ultimately have "SWISH_Score (?s ! i) \<ge> SWISH_Score (?s ! j)"
    using sorted_sort_values_desc [of SWISH_Score "add_score_columns ps"]
    by (simp add: sorted_wrt_iff_nth_less)
  then show ?thesis using i j by (simp add: SWISH_Score_nth)
qed

lemma map_GOAT_Rank: "map GOAT_Rank (calculate_swish_score ps) = [1..int (length ps)]"
proof (rule nth_equalityI)
  show "length (map GOAT_Rank (calculate_swish_score ps)) = length [1..int (length ps)]"
    by (simp add: length_calculate_swish_score)
next
  fix k assume "k < length (map GOAT_Rank (calculate_swish_score ps))"
  then have k: "k < length ps" by (simp add: length_calculate_swish_score)
  then show "map GOAT_Rank (calculate_swish_score ps) ! k = [1..int (length ps)] ! k"
    by (simp add: length_calculate_swish_score GOAT_Rank_nth)
qed


subsection \<open>Position in a strictly descending list is the dense rank\<close>

lemma strict_of_distinct_desc:
  "sorted_wrt (\<lambda>a b. b \<le> a) (xs :: real list) \<Longrightarrow> distinct xs \<Longrightarrow> sorted_wrt (\<lambda>a b. b < a) xs"
  by (induction xs) (auto simp: less_le)

lemma filter_above_sorted_desc:
  assumes s: "sorted_wrt (\<lambda>a b. b < a) (xs :: real list)" and k: "k < length xs"
  shows "filter (\<lambda>t. t > xs ! k) xs = take k xs"
proof -
  have a: "\<forall>x \<in> set (take k xs). x > xs ! k"
  proof
    fix x assume "x \<in> set (take k xs)"
    then obtain i where "i < k" "x = xs ! i" using k by (auto simp: in_set_conv_nth)
    with s k show "x > xs ! k" by (simp add: sorted_wrt_iff_nth_less)
  qed
  have b: "\<forall>x \<in> set (drop k xs). \<not> x > xs ! k"
  proof
    fix x assume "x \<in> set (drop k xs)"
    then obtain i where i: "i < length xs - k" "x = xs ! (k + i)"
      by (auto simp: in_set_conv_nth)
    show "\<not> x > xs ! k"
    proof (cases "i = 0")
      case True
      with i show ?thesis by simp
    next
      case False
      with s i k have "xs ! (k + i) < xs ! k" by (simp add: sorted_wrt_iff_nth_less)
      with i show ?thesis by simp
    qed
  qed
  have "filter (\<lambda>t. t > xs ! k) xs =
        filter (\<lambda>t. t > xs ! k) (take k xs) @ filter (\<lambda>t. t > xs ! k) (drop k xs)"
    by (metis append_take_drop_id filter_append)
  also have "filter (\<lambda>t. t > xs ! k) (take k xs) = take k xs" using a by (simp add: filter_id_conv)
  also have "filter (\<lambda>t. t > xs ! k) (drop k xs) = []" using b by (simp add: filter_empty_conv)
  finally show ?thesis by simp
qed

lemma dense_rank_position:
  assumes "sorted_wrt (\<lambda>a b. b \<le> a) (xs :: real list)" "distinct xs" "k < length xs"
  shows "spec_dense_rank xs (xs ! k) = 1 + int k"
proof -
  have "filter (\<lambda>t. t > xs ! k) xs = take k xs"
    using assms by (simp add: filter_above_sorted_desc strict_of_distinct_desc)
  moreover have "distinct (take k xs)"
    using assms(2) by simp
  ultimately show ?thesis using assms(3) by (simp add: spec_dense_rank_def distinct_remdups_id)
qed

lemma map_Final_Score_assign: "map Final_Score (assign_final_rank df) = map Final_Score df"
  by (rule nth_equalityI) (simp_all add: length_assign_final_rank Final_Score_nth)

lemma v3_rank_is_position:
  assumes "generate_rankings data = Inr res"
  shows "map Final_Rank res = [1..int (length res)]"
    and "sorted_wrt (\<lambda>a b. b \<le> a) (map Final_Score res)"
    and "length res = length data"
proof -
  from assms obtain results where
    c: "collect_results data data = Inr results" and
    res: "res = assign_final_rank (sort_values_desc Final_Score results)"
    by (rule generate_rankings_Inr)
  show "map Final_Rank res = [1..int (length res)]"
    by (simp add: res map_Final_Rank length_assign_final_rank)
  have "sorted_wrt (\<lambda>a b. b \<le> a) (map Final_Score (sort_values_desc Final_Score results))"
    using sorted_sort_values_desc [of Final_Score results] by (simp add: sorted_wrt_map)
  then show "sorted_wrt (\<lambda>a b. b \<le> a) (map Final_Score res)"
    by (simp add: res map_Final_Score_assign)
  from collect_results_shape [OF c] have "length results = length data" by (rule conjunct1)
  then show "length res = length data"
    by (simp add: res length_assign_final_rank length_sort_values_desc)
qed

lemma v3_rank_dense_when_distinct:
  assumes g: "generate_rankings data = Inr res" and d: "distinct (map Final_Score res)"
    and r: "r \<in> set res"
  shows "Final_Rank r = spec_dense_rank (map Final_Score res) (Final_Score r)"
proof -
  from r obtain k where k: "k < length res" "r = res ! k" by (auto simp: in_set_conv_nth)
  have "Final_Rank r = map Final_Rank res ! k" using k by simp
  also have "\<dots> = 1 + int k" using k by (simp add: v3_rank_is_position(1) [OF g])
  also have "\<dots> = spec_dense_rank (map Final_Score res) (map Final_Score res ! k)"
    using dense_rank_position [OF v3_rank_is_position(2) [OF g] d, of k] k by simp
  finally show ?thesis using k by simp
qed

lemma map_SWISH_Score_swish:
  "map SWISH_Score (calculate_swish_score ps) =
   map SWISH_Score (sort_values_desc SWISH_Score (add_score_columns ps))"
  by (rule nth_equalityI)
    (simp_all add: length_calculate_swish_score length_sort_values_desc
      length_add_score_columns SWISH_Score_nth)

lemma swish_sorted_desc:
  "sorted_wrt (\<lambda>a b. b \<le> a) (map SWISH_Score (calculate_swish_score ps))"
  using sorted_sort_values_desc [of SWISH_Score "add_score_columns ps"]
  by (simp add: map_SWISH_Score_swish sorted_wrt_map)

lemma swish_rank_dense_when_distinct:
  assumes d: "distinct (map SWISH_Score (calculate_swish_score ps))"
    and r: "r \<in> set (calculate_swish_score ps)"
  shows "GOAT_Rank r = spec_dense_rank (map SWISH_Score (calculate_swish_score ps)) (SWISH_Score r)"
proof -
  let ?res = "calculate_swish_score ps"
  from r obtain k where k: "k < length ?res" "r = ?res ! k" by (auto simp: in_set_conv_nth)
  then have kp: "k < length ps" by (simp add: length_calculate_swish_score)
  have "GOAT_Rank r = 1 + int k" using k kp by (simp add: GOAT_Rank_nth)
  also have "\<dots> = spec_dense_rank (map SWISH_Score ?res) (map SWISH_Score ?res ! k)"
    using dense_rank_position [OF swish_sorted_desc d, of k] k by simp
  finally show ?thesis using k by simp
qed


text \<open>
  C1 (as the code has it). The rank is the position, counted from 1, in the table sorted
  by final score descending: the ranks of an n-row output are 1, ..., n in row order,
  each used once, and the scores are in descending order. Rows with equal final scores
  get different, consecutive ranks. When all final scores are distinct, the rank is the
  dense rank.
\<close>

theorem C1_rank_is_position:
  "(generate_rankings data = Inr res \<longrightarrow>
      map Final_Rank res = [1..int (length res)] \<and>
      sorted_wrt (\<lambda>a b. b \<le> a) (map Final_Score res) \<and>
      (distinct (map Final_Score res) \<longrightarrow>
         (\<forall>r \<in> set res.
            Final_Rank r = spec_dense_rank (map Final_Score res) (Final_Score r)))) \<and>
   map GOAT_Rank (calculate_swish_score ps) = [1..int (length ps)] \<and>
   sorted_wrt (\<lambda>a b. b \<le> a) (map SWISH_Score (calculate_swish_score ps)) \<and>
   (distinct (map SWISH_Score (calculate_swish_score ps)) \<longrightarrow>
      (\<forall>r \<in> set (calculate_swish_score ps).
         GOAT_Rank r
           = spec_dense_rank (map SWISH_Score (calculate_swish_score ps)) (SWISH_Score r)))"
proof (intro conjI impI ballI)
  assume g: "generate_rankings data = Inr res"
  show "map Final_Rank res = [1..int (length res)]" by (rule v3_rank_is_position(1) [OF g])
  show "sorted_wrt (\<lambda>a b. b \<le> a) (map Final_Score res)" by (rule v3_rank_is_position(2) [OF g])
  fix r assume "distinct (map Final_Score res)" "r \<in> set res"
  with g show "Final_Rank r = spec_dense_rank (map Final_Score res) (Final_Score r)"
    by (rule v3_rank_dense_when_distinct)
next
  show "map GOAT_Rank (calculate_swish_score ps) = [1..int (length ps)]" by (rule map_GOAT_Rank)
  show "sorted_wrt (\<lambda>a b. b \<le> a) (map SWISH_Score (calculate_swish_score ps))"
    by (rule swish_sorted_desc)
next
  fix r assume "distinct (map SWISH_Score (calculate_swish_score ps))"
    "r \<in> set (calculate_swish_score ps)"
  then show "GOAT_Rank r
      = spec_dense_rank (map SWISH_Score (calculate_swish_score ps)) (SWISH_Score r)"
    by (rule swish_rank_dense_when_distinct)
qed

theorem C1_rank_is_position_witness:
  "generate_rankings demo_teams_no_tie = Inr demo_rankings_no_tie \<and>
   map Final_Rank demo_rankings_no_tie = [1, 2] \<and>
   Final_Rank (demo_rankings_no_tie ! 1)
     = spec_dense_rank (map Final_Score demo_rankings_no_tie)
         (Final_Score (demo_rankings_no_tie ! 1)) \<and>
   map GOAT_Rank (calculate_swish_score demo_players) = [1, 2] \<and>
   GOAT_Rank (calculate_swish_score demo_players ! 1)
     = spec_dense_rank (map SWISH_Score (calculate_swish_score demo_players))
         (SWISH_Score (calculate_swish_score demo_players ! 1))"
proof -
  note t = C1_rank_is_position [of demo_teams_no_tie demo_rankings_no_tie demo_players]
  have g: "generate_rankings demo_teams_no_tie = Inr demo_rankings_no_tie"
    by (simp add: demo_no_tie_cols)
  have len: "length demo_rankings_no_tie = 2"
    using arg_cong [OF demo_no_tie_Final_Score, of length] by simp
  have d: "distinct (map Final_Score demo_rankings_no_tie)"
    by (simp add: demo_no_tie_Final_Score)
  have m: "demo_rankings_no_tie ! 1 \<in> set demo_rankings_no_tie"
    using len by simp
  have ds: "distinct (map SWISH_Score (calculate_swish_score demo_players))"
    by (simp add: demo_players_SWISH_Score)
  have ms: "calculate_swish_score demo_players ! 1 \<in> set (calculate_swish_score demo_players)"
    using nth_of_map_eq [OF demo_players_GOAT_Rank, of 1] by simp
  from t have t1: "generate_rankings demo_teams_no_tie = Inr demo_rankings_no_tie \<longrightarrow>
      map Final_Rank demo_rankings_no_tie = [1..int (length demo_rankings_no_tie)] \<and>
      sorted_wrt (\<lambda>a b. b \<le> a) (map Final_Score demo_rankings_no_tie) \<and>
      (distinct (map Final_Score demo_rankings_no_tie) \<longrightarrow>
         (\<forall>r \<in> set demo_rankings_no_tie.
            Final_Rank r = spec_dense_rank (map Final_Score demo_rankings_no_tie) (Final_Score r)))"
    by (rule conjunct1)
  from t1 g have a: "map Final_Rank demo_rankings_no_tie = [1..int (length demo_rankings_no_tie)]"
    and b: "distinct (map Final_Score demo_rankings_no_tie) \<longrightarrow>
         (\<forall>r \<in> set demo_rankings_no_tie.
            Final_Rank r = spec_dense_rank (map Final_Score demo_rankings_no_tie) (Final_Score r))"
    by simp_all
  from a len have a': "map Final_Rank demo_rankings_no_tie = [1, 2]"
    by (simp add: upto.simps)
  from b d m have b': "Final_Rank (demo_rankings_no_tie ! 1)
     = spec_dense_rank (map Final_Score demo_rankings_no_tie)
         (Final_Score (demo_rankings_no_tie ! 1))"
    by (rule mp [THEN bspec])
  from t have c: "distinct (map SWISH_Score (calculate_swish_score demo_players)) \<longrightarrow>
      (\<forall>r \<in> set (calculate_swish_score demo_players).
         GOAT_Rank r
           = spec_dense_rank (map SWISH_Score (calculate_swish_score demo_players)) (SWISH_Score r))"
    by (rule conjunct2 [THEN conjunct2, THEN conjunct2])
  from c ds ms have c': "GOAT_Rank (calculate_swish_score demo_players ! 1)
     = spec_dense_rank (map SWISH_Score (calculate_swish_score demo_players))
         (SWISH_Score (calculate_swish_score demo_players ! 1))"
    by (rule mp [THEN bspec])
  from g a' b' demo_players_GOAT_Rank c' show ?thesis by (intro conjI)
qed

theorem C1_dense_rank_counterexample:
  "generate_rankings demo_teams = Inr demo_rankings \<and>
   map Final_Score demo_rankings = [3463 / 60, 3463 / 60, 373 / 10] \<and>
   map Final_Rank demo_rankings = [1, 2, 3] \<and>
   map (spec_dense_rank (map Final_Score demo_rankings)) (map Final_Score demo_rankings)
     = [1, 1, 2]"
proof -
  have "map (spec_dense_rank (map Final_Score demo_rankings)) (map Final_Score demo_rankings)
     = [1, 1, 2]"
    by (simp add: demo_rankings_Final_Score spec_dense_rank_def)
  then show ?thesis
    using demo_rankings_cols demo_rankings_Final_Score demo_rankings_Final_Rank
    by (intro conjI) simp_all
qed


text \<open>
  C6 (as the code has it). The rank-change column is the 64-bit wrap-around of the
  reference rank minus the model rank, in final\_model\_v3.py and in
  final\_predictive\_model.py, for a table whose reference ranks are 64-bit integers; it
  is the reference rank of the team's input row; and it equals the exact difference
  whenever that difference is itself a 64-bit integer.
\<close>

theorem C6_rank_delta:
  "((\<forall>t \<in> set data. is_int64 (AdjEM_Rank t)) \<and> generate_rankings data = Inr res \<longrightarrow>
      (\<forall>r \<in> set res.
         Rank_Change r = int64_wrap (KenPom_Rank r - Final_Rank r) \<and>
         (\<exists>t \<in> set data. res_Team r = Team t \<and> KenPom_Rank r = AdjEM_Rank t) \<and>
         (is_int64 (KenPom_Rank r - Final_Rank r) \<longrightarrow>
            Rank_Change r = KenPom_Rank r - Final_Rank r))) \<and>
   ((\<forall>t \<in> set fdata. is_int64 (fp_AdjEM_Rank t)) \<and>
      fpm_generate_rankings fdata player_stats = Inr fres \<longrightarrow>
      (\<forall>r \<in> set fres.
         fpm_Rank_Change r = int64_wrap (fpm_KenPom_Rank r - fpm_Final_Rank r) \<and>
         (\<exists>t \<in> set fdata. fr_Team r = fp_Team t \<and> fpm_KenPom_Rank r = fp_AdjEM_Rank t) \<and>
         (is_int64 (fpm_KenPom_Rank r - fpm_Final_Rank r) \<longrightarrow>
            fpm_Rank_Change r = fpm_KenPom_Rank r - fpm_Final_Rank r)))"
proof (intro conjI impI ballI)
  fix r assume a: "(\<forall>t \<in> set data. is_int64 (AdjEM_Rank t)) \<and> generate_rankings data = Inr res"
    and r: "r \<in> set res"
  from a have g: "generate_rankings data = Inr res" by (rule conjunct2)
  from v3_rank_change [OF g] r
  show "Rank_Change r = int64_wrap (KenPom_Rank r - Final_Rank r)"
    and "\<exists>t \<in> set data. res_Team r = Team t \<and> KenPom_Rank r = AdjEM_Rank t" by simp_all
  assume "is_int64 (KenPom_Rank r - Final_Rank r)"
  with v3_rank_change [OF g] r show "Rank_Change r = KenPom_Rank r - Final_Rank r"
    by (simp add: is_int64_def int64_wrap_in_range)
next
  fix r assume a: "(\<forall>t \<in> set fdata. is_int64 (fp_AdjEM_Rank t)) \<and>
      fpm_generate_rankings fdata player_stats = Inr fres"
    and r: "r \<in> set fres"
  from a have g: "fpm_generate_rankings fdata player_stats = Inr fres" by (rule conjunct2)
  from fpm_rank_change [OF g] r
  show "fpm_Rank_Change r = int64_wrap (fpm_KenPom_Rank r - fpm_Final_Rank r)"
    and "\<exists>t \<in> set fdata. fr_Team r = fp_Team t \<and> fpm_KenPom_Rank r = fp_AdjEM_Rank t"
    by simp_all
  assume "is_int64 (fpm_KenPom_Rank r - fpm_Final_Rank r)"
  with fpm_rank_change [OF g] r
  show "fpm_Rank_Change r = fpm_KenPom_Rank r - fpm_Final_Rank r"
    by (simp add: is_int64_def int64_wrap_in_range)
qed

theorem C6_rank_delta_witness:
  "generate_rankings demo_teams = Inr demo_rankings \<and>
   demo_rankings ! 1 \<in> set demo_rankings \<and>
   is_int64 (KenPom_Rank (demo_rankings ! 1) - Final_Rank (demo_rankings ! 1)) \<and>
   Rank_Change (demo_rankings ! 1) = - 1 \<and>
   Rank_Change (demo_rankings ! 1)
     = KenPom_Rank (demo_rankings ! 1) - Final_Rank (demo_rankings ! 1) \<and>
   fpm_generate_rankings demo_fpm_teams demo_player_stats = Inr demo_fpm_rankings \<and>
   demo_fpm_rankings ! 1 \<in> set demo_fpm_rankings \<and>
   is_int64 (fpm_KenPom_Rank (demo_fpm_rankings ! 1) - fpm_Final_Rank (demo_fpm_rankings ! 1)) \<and>
   fpm_Rank_Change (demo_fpm_rankings ! 1) = 1 \<and>
   fpm_Rank_Change (demo_fpm_rankings ! 1)
     = fpm_KenPom_Rank (demo_fpm_rankings ! 1) - fpm_Final_Rank (demo_fpm_rankings ! 1)"
proof -
  have c: "(\<forall>t \<in> set demo_teams. is_int64 (AdjEM_Rank t))"
    by (simp add: demo_teams_def is_int64_def)
  have fc: "(\<forall>t \<in> set demo_fpm_teams. is_int64 (fp_AdjEM_Rank t))"
    by (simp add: demo_fpm_teams_def is_int64_def)
  have g: "generate_rankings demo_teams = Inr demo_rankings"
    by (simp add: demo_rankings_cols)
  have fg: "fpm_generate_rankings demo_fpm_teams demo_player_stats = Inr demo_fpm_rankings"
    by (simp add: demo_fpm_rankings_cols)
  have r: "(res_Team (demo_rankings ! 1), Final_Score (demo_rankings ! 1),
            Final_Rank (demo_rankings ! 1), KenPom_Rank (demo_rankings ! 1),
            Rank_Change (demo_rankings ! 1)) = (''Houston'', 3463 / 60, 2, 1, - 1)"
    "demo_rankings ! 1 \<in> set demo_rankings"
    using nth_of_map_eq [OF conjunct2 [OF demo_rankings_cols], of 1] by simp_all
  have fr: "(fr_Team (demo_fpm_rankings ! 1), fpm_Final_Rank (demo_fpm_rankings ! 1),
             fpm_KenPom_Rank (demo_fpm_rankings ! 1), fpm_Rank_Change (demo_fpm_rankings ! 1))
            = (''Army'', 2, 3, 1)"
    "demo_fpm_rankings ! 1 \<in> set demo_fpm_rankings"
    using nth_of_map_eq [OF conjunct2 [OF demo_fpm_rankings_cols], of 1] by simp_all
  from C6_rank_delta [of demo_teams demo_rankings demo_fpm_teams demo_player_stats
      demo_fpm_rankings] c fc g fg r fr
  show ?thesis by (simp add: is_int64_def int64_wrap_def)
qed

theorem C6_rank_delta_counterexample:
  "generate_rankings extreme_rank_teams = Inr extreme_rankings \<and>
   KenPom_Rank (extreme_rankings ! 0) = - 9223372036854775808 \<and>
   Final_Rank (extreme_rankings ! 0) = 1 \<and>
   Rank_Change (extreme_rankings ! 0) = 9223372036854775807 \<and>
   Rank_Change (extreme_rankings ! 0)
     \<noteq> KenPom_Rank (extreme_rankings ! 0) - Final_Rank (extreme_rankings ! 0)"
proof -
  have r: "(res_Team (extreme_rankings ! 0), Final_Rank (extreme_rankings ! 0),
            KenPom_Rank (extreme_rankings ! 0), Rank_Change (extreme_rankings ! 0))
           = (''Duke'', 1, - 9223372036854775808, 9223372036854775807)"
    using nth_of_map_eq [OF conjunct2 [OF extreme_rankings_cols], of 0] by simp
  then show ?thesis by (simp add: extreme_rankings_cols)
qed


text \<open>
  C2. Every sub-score lies in the closed interval from 0 to 100, for all raw input
  values. The peak dominance score of the SWISH calculator does not: of its four
  components only the era-adjusted scoring is clamped at 0, the efficiency component
  \<open>min(100, (per - 15) / 16 * 100)\<close> has no lower bound, and a player with a career
  efficiency rating of 9 and no other statistics receives the peak dominance score
  -11.25.
\<close>

theorem C2_peak_dominance_negative:
  "calculate_peak_dominance [(blank_player ''Reserve Guard'')\<lparr>career_per := 9\<rparr>] = [- 45 / 4]"
  by (simp add: blank_player_def calculate_peak_dominance_def peak_dominance_of_def
      calculate_era_adjusted_stat_def Let_def)


subsection \<open>Percentiles\<close>

lemma length_others: "k < length data \<Longrightarrow> length (others data k) = length data - 1"
  by (simp add: others_def)

lemma filter_others:
  assumes "k < length data" "\<not> P (data ! k)"
  shows "length (filter P data) = length (filter P (others data k))"
proof -
  have "data = take k data @ data ! k # drop (Suc k) data"
    using assms(1) by (rule id_take_nth_drop)
  then have "filter P data = filter P (take k data @ data ! k # drop (Suc k) data)" by simp
  also have "\<dots> = filter P (others data k)" using assms(2) by (simp add: others_def)
  finally show ?thesis by simp
qed

lemma percentile_of_all_spec:
  assumes "i < length xs"
  shows "percentile_of_all worse xs i * real (length xs)
       = spec_percentile_rank worse xs i * real (length xs - 1)"
proof (cases "length xs = 1")
  case True
  then show ?thesis using assms
    by (simp add: percentile_of_all_def spec_percentile_rank_def others_def)
next
  case False
  with assms have "length xs - 1 \<noteq> 0" "length xs \<noteq> 0" by auto
  then show ?thesis using assms
    by (simp add: percentile_of_all_def spec_percentile_rank_def length_others)
qed

text \<open>
  C3 (as the code has it). Before any bonus or penalty, the percentile computed by
  \<open>calculate_defensive_rating\<close> of final\_model\_v3.py and by
  \<open>calculate_offensive_rating\<close> and \<open>calculate_experience\<close> of
  final\_predictive\_model.py is the number of other entities that are strictly worse
  on the metric, divided by the number of all entities (the entity itself included),
  times 100. It is the fraction of other entities scaled by (n - 1) / n.
\<close>

theorem C3_percentile_over_all:
  "k < length data \<and> j < length fdata \<and> i < length xs \<longrightarrow>
   calculate_defensive_rating data (data ! k) =
     (let def_percentile = percentile_of_all (\<lambda>r e. AdjDE r > AdjDE e) data k
      in if AdjDE_Rank (data ! k) \<le> 10 then min 100 (def_percentile + 5)
         else if AdjDE_Rank (data ! k) \<le> 25 then min 100 (def_percentile + 2)
         else def_percentile) \<and>
   fpm_calculate_offensive_rating fdata (fdata ! j) =
     (let off_percentile = percentile_of_all (\<lambda>r e. fp_AdjOE e > fp_AdjOE r) fdata j
      in if fp_AdjOE_Rank (fdata ! j) \<le> 10 then min 100 (off_percentile + 4)
         else if fp_AdjOE_Rank (fdata ! j) \<le> 25 then min 100 (off_percentile + 2)
         else off_percentile) \<and>
   fpm_calculate_experience fdata (fdata ! j) =
     (let exp_value = fp_Experience (fdata ! j);
          exp_percentile = percentile_of_all (\<lambda>r e. fp_Experience e > fp_Experience r) fdata j;
          exp_percentile =
            (if exp_value \<ge> 3.0 then min 100 (exp_percentile + 10)
             else if exp_value \<ge> 2.5 then min 100 (exp_percentile + 5)
             else exp_percentile)
      in if exp_value < 1.5 then max 0 (exp_percentile - 10)
         else if exp_value < 2.0 then max 0 (exp_percentile - 5)
         else exp_percentile) \<and>
   percentile_of_all worse xs i * real (length xs)
     = spec_percentile_rank worse xs i * real (length xs - 1)"
proof (intro impI)
  assume a: "k < length data \<and> j < length fdata \<and> i < length xs"
  then have k: "k < length data" and j: "j < length fdata" and i: "i < length xs" by simp_all
  have d: "length (filter (\<lambda>r. AdjDE r > AdjDE (data ! k)) data)
         = length (filter (\<lambda>r. AdjDE r > AdjDE (data ! k)) (others data k))"
    using k by (rule filter_others) simp
  have oe: "length (filter (\<lambda>r. fp_AdjOE (fdata ! j) > fp_AdjOE r) fdata)
         = length (filter (\<lambda>r. fp_AdjOE (fdata ! j) > fp_AdjOE r) (others fdata j))"
    using j by (rule filter_others) simp
  have ex: "length (filter (\<lambda>r. fp_Experience (fdata ! j) > fp_Experience r) fdata)
         = length (filter (\<lambda>r. fp_Experience (fdata ! j) > fp_Experience r) (others fdata j))"
    using j by (rule filter_others) simp
  show "calculate_defensive_rating data (data ! k) =
     (let def_percentile = percentile_of_all (\<lambda>r e. AdjDE r > AdjDE e) data k
      in if AdjDE_Rank (data ! k) \<le> 10 then min 100 (def_percentile + 5)
         else if AdjDE_Rank (data ! k) \<le> 25 then min 100 (def_percentile + 2)
         else def_percentile) \<and>
   fpm_calculate_offensive_rating fdata (fdata ! j) =
     (let off_percentile = percentile_of_all (\<lambda>r e. fp_AdjOE e > fp_AdjOE r) fdata j
      in if fp_AdjOE_Rank (fdata ! j) \<le> 10 then min 100 (off_percentile + 4)
         else if fp_AdjOE_Rank (fdata ! j) \<le> 25 then min 100 (off_percentile + 2)
         else off_percentile) \<and>
   fpm_calculate_experience fdata (fdata ! j) =
     (let exp_value = fp_Experience (fdata ! j);
          exp_percentile = percentile_of_all (\<lambda>r e. fp_Experience e > fp_Experience r) fdata j;
          exp_percentile =
            (if exp_value \<ge> 3.0 then min 100 (exp_percentile + 10)
             else if exp_value \<ge> 2.5 then min 100 (exp_percentile + 5)
             else exp_percentile)
      in if exp_value < 1.5 then max 0 (exp_percentile - 10)
         else if exp_value < 2.0 then max 0 (exp_percentile - 5)
         else exp_percentile) \<and>
   percentile_of_all worse xs i * real (length xs)
     = spec_percentile_rank worse xs i * real (length xs - 1)"
  proof (intro conjI)
    show "calculate_defensive_rating data (data ! k) =
     (let def_percentile = percentile_of_all (\<lambda>r e. AdjDE r > AdjDE e) data k
      in if AdjDE_Rank (data ! k) \<le> 10 then min 100 (def_percentile + 5)
         else if AdjDE_Rank (data ! k) \<le> 25 then min 100 (def_percentile + 2)
         else def_percentile)"
      by (simp only: calculate_defensive_rating_def percentile_of_all_def d)
    show "fpm_calculate_offensive_rating fdata (fdata ! j) =
     (let off_percentile = percentile_of_all (\<lambda>r e. fp_AdjOE e > fp_AdjOE r) fdata j
      in if fp_AdjOE_Rank (fdata ! j) \<le> 10 then min 100 (off_percentile + 4)
         else if fp_AdjOE_Rank (fdata ! j) \<le> 25 then min 100 (off_percentile + 2)
         else off_percentile)"
      by (simp only: fpm_calculate_offensive_rating_def percentile_of_all_def oe)
    show "fpm_calculate_experience fdata (fdata ! j) =
     (let exp_value = fp_Experience (fdata ! j);
          exp_percentile = percentile_of_all (\<lambda>r e. fp_Experience e > fp_Experience r) fdata j;
          exp_percentile =
            (if exp_value \<ge> 3.0 then min 100 (exp_percentile + 10)
             else if exp_value \<ge> 2.5 then min 100 (exp_percentile + 5)
             else exp_percentile)
      in if exp_value < 1.5 then max 0 (exp_percentile - 10)
         else if exp_value < 2.0 then max 0 (exp_percentile - 5)
         else exp_percentile)"
      by (simp only: fpm_calculate_experience_def percentile_of_all_def ex)
    show "percentile_of_all worse xs i * real (length xs)
     = spec_percentile_rank worse xs i * real (length xs - 1)"
      using i by (rule percentile_of_all_spec)
  qed
qed

theorem C3_percentile_over_all_witness:
  "calculate_defensive_rating pct_teams (pct_teams ! 0) = 50 \<and>
   percentile_of_all (\<lambda>r e. AdjDE r > AdjDE e) pct_teams 0 = 50 \<and>
   fpm_calculate_offensive_rating demo_fpm_teams (demo_fpm_teams ! 0) = 50 \<and>
   percentile_of_all (\<lambda>r e. fp_AdjOE e > fp_AdjOE r) demo_fpm_teams 0 = 50 \<and>
   fpm_calculate_experience demo_fpm_teams (demo_fpm_teams ! 0) = 50 \<and>
   percentile_of_all (\<lambda>r e. fp_Experience e > fp_Experience r) demo_fpm_teams 0 = 50 \<and>
   percentile_of_all (\<lambda>r e. AdjDE r > AdjDE e) pct_teams 0 * real (length pct_teams)
     = spec_percentile_rank (\<lambda>r e. AdjDE r > AdjDE e) pct_teams 0 * real (length pct_teams - 1)"
proof -
  have p1: "percentile_of_all (\<lambda>r e. AdjDE r > AdjDE e) pct_teams 0 = 50"
    by (simp add: percentile_of_all_def others_def pct_teams_def)
  have p2: "percentile_of_all (\<lambda>r e. fp_AdjOE e > fp_AdjOE r) demo_fpm_teams 0 = 50"
    by (simp add: percentile_of_all_def others_def demo_fpm_teams_def)
  have p3: "percentile_of_all (\<lambda>r e. fp_Experience e > fp_Experience r) demo_fpm_teams 0 = 50"
    by (simp add: percentile_of_all_def others_def demo_fpm_teams_def)
  have r1: "AdjDE_Rank (pct_teams ! 0) = 60" by (simp add: pct_teams_def)
  have r2: "fp_AdjOE_Rank (demo_fpm_teams ! 0) = 30" "fp_Experience (demo_fpm_teams ! 0) = 2.2"
    by (simp_all add: demo_fpm_teams_def)
  have l: "0 < length pct_teams \<and> 0 < length demo_fpm_teams \<and> 0 < length pct_teams"
    by (simp add: pct_teams_def demo_fpm_teams_def)
  have l2: "length pct_teams = 2" by (simp add: pct_teams_def)
  from C3_percentile_over_all [of 0 pct_teams 0 demo_fpm_teams 0 pct_teams
      "\<lambda>r e. AdjDE r > AdjDE e"] l l2 p1 p2 p3 r1 r2
  show ?thesis by (simp add: Let_def)
qed

theorem C3_percentile_counterexample:
  "calculate_defensive_rating pct_teams (pct_teams ! 0) = 50 \<and>
   AdjDE_Rank (pct_teams ! 0) = 60 \<and>
   spec_percentile_rank (\<lambda>r e. AdjDE r > AdjDE e) pct_teams 0 = 100"
  by (simp add: calculate_defensive_rating_def spec_percentile_rank_def others_def
      pct_teams_def Let_def)


subsection \<open>Weights\<close>








text \<open>
  C5. In the generated ranking, a better (smaller) rank never goes with a smaller
  final score: for rows e1, e2 with rank e1 < rank e2, final e1 >= final e2. This holds
  for the team rankings of final\_model\_v3.py and for the GOAT ranks of the SWISH
  calculator.
\<close>

theorem C5_rank_monotone:
  "(generate_rankings data = Inr res \<longrightarrow>
      (\<forall>e1 \<in> set res. \<forall>e2 \<in> set res.
          Final_Rank e1 < Final_Rank e2 \<longrightarrow> Final_Score e2 \<le> Final_Score e1)) \<and>
   (\<forall>p1 \<in> set (calculate_swish_score ps). \<forall>p2 \<in> set (calculate_swish_score ps).
          GOAT_Rank p1 < GOAT_Rank p2 \<longrightarrow> SWISH_Score p2 \<le> SWISH_Score p1)"
  using v3_ranking_monotone [of data res] swish_ranking_monotone [of _ ps] by simp

theorem C5_rank_monotone_witness:
  "generate_rankings demo_teams = Inr demo_rankings \<and>
   Final_Rank (demo_rankings ! 0) < Final_Rank (demo_rankings ! 2) \<and>
   Final_Score (demo_rankings ! 2) \<le> Final_Score (demo_rankings ! 0) \<and>
   GOAT_Rank (calculate_swish_score demo_players ! 0)
     < GOAT_Rank (calculate_swish_score demo_players ! 1) \<and>
   SWISH_Score (calculate_swish_score demo_players ! 1)
     \<le> SWISH_Score (calculate_swish_score demo_players ! 0)"
proof -
  have g: "generate_rankings demo_teams = Inr demo_rankings"
    by (simp add: demo_rankings_cols)
  have r0: "Final_Rank (demo_rankings ! 0) = 1" "demo_rankings ! 0 \<in> set demo_rankings"
    using nth_of_map_eq [OF demo_rankings_Final_Rank, of 0] by simp_all
  have r2: "Final_Rank (demo_rankings ! 2) = 3" "demo_rankings ! 2 \<in> set demo_rankings"
    using nth_of_map_eq [OF demo_rankings_Final_Rank, of 2] by simp_all
  have p0: "GOAT_Rank (calculate_swish_score demo_players ! 0) = 1"
    "calculate_swish_score demo_players ! 0 \<in> set (calculate_swish_score demo_players)"
    using nth_of_map_eq [OF demo_players_GOAT_Rank, of 0] by simp_all
  have p1: "GOAT_Rank (calculate_swish_score demo_players ! 1) = 2"
    "calculate_swish_score demo_players ! 1 \<in> set (calculate_swish_score demo_players)"
    using nth_of_map_eq [OF demo_players_GOAT_Rank, of 1] by simp_all
  from C5_rank_monotone [of demo_teams demo_rankings demo_players] g r0 r2 p0 p1
  show ?thesis by simp
qed


subsection \<open>The pipeline of final\_model\_v3.py\<close>





lemma demo_dir_loaded: "load_all_data demo_dir = Inr demo_teams_no_tie"
  by (simp add: demo_dir_def load_all_data_def merge_inner_def merged_team_row_def
      demo_teams_no_tie_def demo_teams_def)





subsection \<open>Loading\<close>

lemma set_merge_inner:
  "set (merge_inner kl kr left right) = {(l, r). l \<in> set left \<and> r \<in> set right \<and> kr r = kl l}"
  by (auto simp: merge_inner_def)

text \<open>
  C8. \<open>load_all_data\<close> of final\_model\_v3.py joins its three tables with an inner join
  on the team name: the merged table has exactly the rows built from a rankings row, a
  personnel row and a four-factors row with the same team name, and every one of the
  three files must exist. \<open>load_data\<close> of predictive\_model.py needs its three core
  files; when one of the two optional game files is missing the load still completes
  and both game tables are recorded as absent.
\<close>

theorem C8_loader:
  "(kenpom_rankings_latest dir = Some rankings \<and>
    kenpom_height_experience_latest dir = Some personnel \<and>
    kenpom_four_factors_latest dir = Some four_factors \<longrightarrow>
      (\<exists>data. load_all_data dir = Inr data \<and>
         (\<forall>t. t \<in> set data \<longleftrightarrow>
            (\<exists>rk \<in> set rankings. \<exists>ps \<in> set personnel. \<exists>ff \<in> set four_factors.
               ps_Team ps = rk_Team rk \<and> ff_Team ff = rk_Team rk \<and>
               t = merged_team_row ((rk, ps), ff))))) \<and>
   (kenpom_rankings_latest dir = None \<or> kenpom_height_experience_latest dir = None \<or>
    kenpom_four_factors_latest dir = None \<longrightarrow> load_all_data dir = Inl FileNotFoundError) \<and>
   (pm_kenpom_rankings_latest pdir = Some r \<and> pm_kenpom_four_factors_latest pdir = Some f \<and>
    pm_kenpom_tempo_stats_latest pdir = Some ts \<longrightarrow>
      (\<exists>tables. load_data pdir = Inr tables \<and>
         pm_rankings tables = r \<and> pm_four_factors tables = f \<and> pm_tempo_stats tables = ts \<and>
         (pm_kenpom_exciting_games_latest pdir = None \<or>
          pm_kenpom_upset_games_latest pdir = None \<longrightarrow>
            pm_games tables = None \<and> pm_upsets tables = None) \<and>
         (pm_kenpom_exciting_games_latest pdir \<noteq> None \<and>
          pm_kenpom_upset_games_latest pdir \<noteq> None \<longrightarrow>
            pm_games tables = pm_kenpom_exciting_games_latest pdir \<and>
            pm_upsets tables = pm_kenpom_upset_games_latest pdir))) \<and>
   (pm_kenpom_rankings_latest pdir = None \<or> pm_kenpom_four_factors_latest pdir = None \<or>
    pm_kenpom_tempo_stats_latest pdir = None \<longrightarrow> load_data pdir = Inl FileNotFoundError)"
proof (intro conjI impI)
  assume a: "kenpom_rankings_latest dir = Some rankings \<and>
    kenpom_height_experience_latest dir = Some personnel \<and>
    kenpom_four_factors_latest dir = Some four_factors"
  let ?data = "map merged_team_row
          (merge_inner (\<lambda>lp. rk_Team (fst lp)) ff_Team
             (merge_inner rk_Team ps_Team rankings personnel) four_factors)"
  have l: "load_all_data dir = Inr ?data" using a by (simp add: load_all_data_def)
  have "\<forall>t. t \<in> set ?data \<longleftrightarrow>
            (\<exists>rk \<in> set rankings. \<exists>ps \<in> set personnel. \<exists>ff \<in> set four_factors.
               ps_Team ps = rk_Team rk \<and> ff_Team ff = rk_Team rk \<and>
               t = merged_team_row ((rk, ps), ff))"
    by (auto simp: set_merge_inner image_iff)
  with l show "\<exists>data. load_all_data dir = Inr data \<and>
         (\<forall>t. t \<in> set data \<longleftrightarrow>
            (\<exists>rk \<in> set rankings. \<exists>ps \<in> set personnel. \<exists>ff \<in> set four_factors.
               ps_Team ps = rk_Team rk \<and> ff_Team ff = rk_Team rk \<and>
               t = merged_team_row ((rk, ps), ff)))"
    by (intro exI [of _ ?data] conjI)
next
  assume "kenpom_rankings_latest dir = None \<or> kenpom_height_experience_latest dir = None \<or>
    kenpom_four_factors_latest dir = None"
  then show "load_all_data dir = Inl FileNotFoundError"
    by (auto simp: load_all_data_def split: option.splits)
next
  assume "pm_kenpom_rankings_latest pdir = Some r \<and> pm_kenpom_four_factors_latest pdir = Some f \<and>
    pm_kenpom_tempo_stats_latest pdir = Some ts"
  then show "\<exists>tables. load_data pdir = Inr tables \<and>
         pm_rankings tables = r \<and> pm_four_factors tables = f \<and> pm_tempo_stats tables = ts \<and>
         (pm_kenpom_exciting_games_latest pdir = None \<or>
          pm_kenpom_upset_games_latest pdir = None \<longrightarrow>
            pm_games tables = None \<and> pm_upsets tables = None) \<and>
         (pm_kenpom_exciting_games_latest pdir \<noteq> None \<and>
          pm_kenpom_upset_games_latest pdir \<noteq> None \<longrightarrow>
            pm_games tables = pm_kenpom_exciting_games_latest pdir \<and>
            pm_upsets tables = pm_kenpom_upset_games_latest pdir)"
    by (auto simp: load_data_def split: option.splits)
next
  assume "pm_kenpom_rankings_latest pdir = None \<or> pm_kenpom_four_factors_latest pdir = None \<or>
    pm_kenpom_tempo_stats_latest pdir = None"
  then show "load_data pdir = Inl FileNotFoundError"
    by (auto simp: load_data_def split: option.splits)
qed

theorem C8_loader_witness:
  "load_all_data demo_dir = Inr demo_teams_no_tie \<and>
   ''Yale'' \<notin> set (map Team demo_teams_no_tie) \<and>
   load_data demo_pm_dir = Inr (projr (load_data demo_pm_dir)) \<and>
   pm_games (projr (load_data demo_pm_dir)) = None \<and>
   pm_upsets (projr (load_data demo_pm_dir)) = None"
proof -
  let ?R = "the (kenpom_rankings_latest demo_dir)"
  let ?P = "the (kenpom_height_experience_latest demo_dir)"
  let ?F = "the (kenpom_four_factors_latest demo_dir)"
  let ?r = "the (pm_kenpom_rankings_latest demo_pm_dir)"
  let ?f = "the (pm_kenpom_four_factors_latest demo_pm_dir)"
  let ?ts = "the (pm_kenpom_tempo_stats_latest demo_pm_dir)"
  note t = C8_loader [of demo_dir ?R ?P ?F demo_pm_dir ?r ?f ?ts]
  have h: "kenpom_rankings_latest demo_dir = Some ?R \<and>
    kenpom_height_experience_latest demo_dir = Some ?P \<and>
    kenpom_four_factors_latest demo_dir = Some ?F"
    by (simp add: demo_dir_def)
  have hp: "pm_kenpom_rankings_latest demo_pm_dir = Some ?r \<and>
    pm_kenpom_four_factors_latest demo_pm_dir = Some ?f \<and>
    pm_kenpom_tempo_stats_latest demo_pm_dir = Some ?ts"
    by (simp add: demo_pm_dir_def)
  from t [THEN conjunct1, THEN mp, OF h] obtain data where
    l: "load_all_data demo_dir = Inr data" and
    ch: "\<forall>t. t \<in> set data \<longleftrightarrow>
            (\<exists>rk \<in> set ?R. \<exists>ps \<in> set ?P. \<exists>ff \<in> set ?F.
               ps_Team ps = rk_Team rk \<and> ff_Team ff = rk_Team rk \<and>
               t = merged_team_row ((rk, ps), ff))"
    by (elim exE conjE)
  from l have d: "data = demo_teams_no_tie" by (simp add: demo_dir_loaded)
  have P: "\<forall>ps \<in> set ?P. ps_Team ps \<noteq> ''Yale''" by (simp add: demo_dir_def)
  have y: "''Yale'' \<notin> set (map Team data)"
  proof
    assume "''Yale'' \<in> set (map Team data)"
    then obtain t where t1: "t \<in> set data" and t2: "Team t = ''Yale''" by auto
    from ch t1 obtain rk ps ff where ps: "ps \<in> set ?P" and e: "ps_Team ps = rk_Team rk"
      and m: "t = merged_team_row ((rk, ps), ff)" by auto
    from m have "Team t = rk_Team rk" by (simp add: merged_team_row_def)
    with e t2 have "ps_Team ps = ''Yale''" by simp
    with P ps show False by simp
  qed
  from t [THEN conjunct2, THEN conjunct2, THEN conjunct1, THEN mp, OF hp] obtain tables where
    lt: "load_data demo_pm_dir = Inr tables" and
    g: "pm_kenpom_exciting_games_latest demo_pm_dir = None \<or>
          pm_kenpom_upset_games_latest demo_pm_dir = None \<longrightarrow>
            pm_games tables = None \<and> pm_upsets tables = None"
    by (elim exE conjE)
  have "pm_kenpom_upset_games_latest demo_pm_dir = None" by (simp add: demo_pm_dir_def)
  with g have g': "pm_games tables = None" "pm_upsets tables = None" by simp_all
  from lt have pj: "projr (load_data demo_pm_dir) = tables" by simp
  from l d y lt g' pj show ?thesis by simp
qed













end
